theory Spec2Isabelle
  imports Complex_Main
begin

section \<open>Data model of the combined planner node\<close>

text \<open>
  The node of \<^verbatim>\<open>CombinedPlannerNode.cpp\<close> supervises three collaborators: the
  transform listener \<^verbatim>\<open>tf_\<close>, the path planner \<^verbatim>\<open>planner_\<close> and the action
  client \<^verbatim>\<open>motion_ac_\<close> of the motion control. Their code is outside the node, so
  the model takes their answers from an environment record and writes every call the
  node makes, with its arguments and its answer, to a call log kept in the node's state.
  C++ doubles are modelled as reals; the node only copies them.
\<close>

record Pose2d =
  px :: real
  py :: real
  ptheta :: real

record Point2d =
  ptx :: real
  pty :: real

type_synonym quaternion = "real \<times> real \<times> real \<times> real"

type_synonym costmap = "nat list"

record PoseStamped =
  ps_frame_id :: string
  ps_x :: real
  ps_y :: real
  ps_orientation :: quaternion

record Transform =
  tr_x :: real
  tr_y :: real
  tr_rotation :: quaternion

record OccupancyGrid =
  og_frame_id :: string
  og_width :: nat
  og_height :: nat
  og_data :: "int list"

record PathMsg =
  pm_frame_id :: string
  pm_stamp :: nat
  pm_poses :: "PoseStamped list"

datatype marker_type = LINE_STRIP | LINE_LIST

record Marker =
  mk_frame_id :: string
  mk_stamp :: nat
  mk_type :: marker_type
  mk_ns :: string
  mk_id :: int
  mk_color :: "real \<times> real \<times> real \<times> real"
  mk_scale :: "real \<times> real"
  mk_points :: "(real \<times> real \<times> real) list"

datatype motion_mode = MOTION_FOLLOW_PATH

record MotionGoal =
  mg_mode :: motion_mode
  mg_path_topic :: string
  mg_path_poses :: "PoseStamped list"
  mg_v :: real
  mg_pos_tolerance :: real

text \<open>
  One entry of the call log: a log line, or a call to a collaborator with the answer
  it gave (for a call that can throw, \<open>None\<close> is the normal return of
  \<open>PlSetGoal\<close> and \<open>PlUpdate\<close>, and the failure of the two transform calls).
\<close>

datatype call =
    RosInfo string
  | RosWarn string
  | RosError string
  | TfLookupTransform string string "Transform option"
  | TfTransformPose string PoseStamped "PoseStamped option"
  | LmClearRobotFootprint
  | LmGetCostmapCopy costmap
  | PlSetGlobalMap OccupancyGrid
  | PlSetLocalMap costmap
  | PlSetGoal Pose2d Pose2d "string option"
  | PlUpdate Pose2d bool "string option"
  | PlIsGoalReached Pose2d bool
  | PlHasValidPath bool
  | PlHasNewLocalPath bool
  | PlGetLocalPath "Pose2d list"
  | PlGetGlobalPath "Point2d list"
  | PlGetGlobalWaypoints "Pose2d list"
  | AcWaitForServer real bool
  | AcSendGoal MotionGoal
  | AcCancelAllGoals
  | PathPublish PathMsg
  | VisuPublish Marker
  | TimerRestart nat

text \<open>
  What the collaborators answer while one callback runs. Every callback of the node
  asks each question at most once, so one answer per question covers every behaviour
  of the collaborators. A transform call answers \<open>Inl what\<close> when it throws a
  \<^verbatim>\<open>tf::TransformException\<close>; \<open>pl_setGoal\<close> and \<open>pl_update\<close> answer
  \<open>Some what\<close> when they throw a \<^verbatim>\<open>CombinedPlannerException\<close>.
\<close>

record env =
  now :: nat
  tf_lookupTransform :: "string \<Rightarrow> string \<Rightarrow> string + Transform"
  tf_transformPose :: "string \<Rightarrow> PoseStamped \<Rightarrow> string + PoseStamped"
  tf_getYaw :: "quaternion \<Rightarrow> real"
  tf_createQuaternionMsgFromYaw :: "real \<Rightarrow> quaternion"
  lmap_getCostmapCopy :: costmap
  pl_setGoal :: "Pose2d \<Rightarrow> Pose2d \<Rightarrow> string option"
  pl_update :: "Pose2d \<Rightarrow> bool \<Rightarrow> string option"
  pl_isGoalReached :: "Pose2d \<Rightarrow> bool"
  pl_hasValidPath :: bool
  pl_hasNewLocalPath :: bool
  pl_getLocalPath :: "Pose2d list"
  pl_getGlobalPath :: "Point2d list"
  pl_getGlobalWaypoints :: "Pose2d list"
  ac_waitForServer :: "real \<Rightarrow> bool"

text \<open>
  The members of \<^verbatim>\<open>CombinedPlannerNode\<close> that the callbacks read or write, the
  start time of the stopwatch \<^verbatim>\<open>replan_timer_\<close> in milliseconds, and the call log.
\<close>

record node =
  map_topic :: string
  goal_topic :: string
  path_topic :: string
  lmap_lower_threshold :: nat
  lmap_upper_threshold :: nat
  lmap_cpy :: costmap
  gmap_cpy :: OccupancyGrid
  gmap_frame_id :: string
  got_map :: bool
  active :: bool
  replan_timer :: nat
  trace :: "call list"

section \<open>The callbacks\<close>

definition emit :: "call \<Rightarrow> node \<Rightarrow> node" where
  "emit c s = s\<lparr>trace := trace s @ [c]\<rparr>"

text \<open>The constructor; a parameter the parameter server does not hold takes its default.\<close>

definition CombinedPlannerNode :: "nat \<Rightarrow> string option \<Rightarrow> string option \<Rightarrow> string option \<Rightarrow> node" where
  "CombinedPlannerNode t0 p_map p_goal p_path =
     \<lparr>map_topic = (case p_map of None \<Rightarrow> ''/map_inflated'' | Some v \<Rightarrow> v),
      goal_topic = (case p_goal of None \<Rightarrow> ''/goal'' | Some v \<Rightarrow> v),
      path_topic = (case p_path of None \<Rightarrow> ''/path'' | Some v \<Rightarrow> v),
      lmap_lower_threshold = 128,
      lmap_upper_threshold = 250,
      lmap_cpy = [],
      gmap_cpy = \<lparr>og_frame_id = '''', og_width = 0, og_height = 0, og_data = []\<rparr>,
      gmap_frame_id = '''',
      got_map = False,
      active = False,
      replan_timer = t0,
      trace = []\<rparr>"

definition plannerPathToRos :: "env \<Rightarrow> Pose2d list \<Rightarrow> PoseStamped list" where
  "plannerPathToRos e planner_p =
     map (\<lambda>it. \<lparr>ps_frame_id = '''', ps_x = px it, ps_y = py it,
                ps_orientation = tf_createQuaternionMsgFromYaw e (ptheta it)\<rparr>) planner_p"

definition publishLocalPath :: "env \<Rightarrow> Pose2d list \<Rightarrow> node \<Rightarrow> node" where
  "publishLocalPath e path s =
     emit (PathPublish \<lparr>pm_frame_id = gmap_frame_id s, pm_stamp = now e,
        pm_poses = map (\<lambda>it. \<lparr>ps_frame_id = '''', ps_x = px it, ps_y = py it,
                ps_orientation = tf_createQuaternionMsgFromYaw e (ptheta it)\<rparr>) path\<rparr>) s"

definition publishEmptyLocalPath :: "env \<Rightarrow> node \<Rightarrow> node" where
  "publishEmptyLocalPath e s =
     emit (PathPublish \<lparr>pm_frame_id = gmap_frame_id s, pm_stamp = now e, pm_poses = []\<rparr>) s"

definition getRobotPose :: "env \<Rightarrow> string \<Rightarrow> node \<Rightarrow> Pose2d option \<times> node" where
  "getRobotPose e map_frame s =
     (case tf_lookupTransform e map_frame ''/base_link'' of
        Inl what \<Rightarrow>
          (None, emit (RosError (''Error getting the robot position. Reason: '' @ what))
                   (emit (TfLookupTransform map_frame ''/base_link'' None) s))
      | Inr trafo \<Rightarrow>
          (Some \<lparr>px = tr_x trafo, py = tr_y trafo, ptheta = tf_getYaw e (tr_rotation trafo)\<rparr>,
           emit (TfLookupTransform map_frame ''/base_link'' (Some trafo)) s))"

definition deactivate :: "env \<Rightarrow> node \<Rightarrow> node" where
  "deactivate e s =
     (let s1 = emit (RosInfo ''Deactivating path planner.'') s;
          s2 = emit AcCancelAllGoals s1;
          s3 = s2\<lparr>active := False\<rparr>
      in publishEmptyLocalPath e s3)"

definition activate :: "env \<Rightarrow> node \<Rightarrow> node" where
  "activate e s =
     (let s1 = (if active s then deactivate e s else s);
          ready = ac_waitForServer e 1.0;
          s2 = emit (AcWaitForServer 1.0 ready) s1
      in if \<not> ready
         then emit (RosWarn ''Motion control action server didn't connect within 1.0 seconds'') s2
         else
           let s3 = s2\<lparr>active := True\<rparr>;
               lp = pl_getLocalPath e;
               s4 = emit (PlGetLocalPath lp) s3
           in emit (AcSendGoal \<lparr>mg_mode = MOTION_FOLLOW_PATH, mg_path_topic = path_topic s4,
                      mg_path_poses = plannerPathToRos e lp, mg_v = 0.7,
                      mg_pos_tolerance = 0.20\<rparr>) s4)"

text \<open>
  The scale of a marker is a double and is assigned the float literal \<^verbatim>\<open>0.1f\<close>:
  the stored value is the single-precision number nearest to 0.1, which is
  \<open>13421773 / 2 ^ 27\<close>.
\<close>

definition float_0_1 :: real where
  "float_0_1 = 13421773 / 134217728"

definition visualizePath :: "env \<Rightarrow> Point2d list \<Rightarrow> string \<Rightarrow> int \<Rightarrow> int \<Rightarrow> node \<Rightarrow> node" where
  "visualizePath e path ns color ident s =
     emit (VisuPublish \<lparr>mk_frame_id = gmap_frame_id s, mk_stamp = now e, mk_type = LINE_STRIP,
        mk_ns = ns, mk_id = ident,
        mk_color = (if color \<noteq> 1 then (1, 0, 0, 0.75) else (0, 0, 1, 0.75)),
        mk_scale = (float_0_1, float_0_1),
        mk_points = map (\<lambda>it. (ptx it, pty it, 0)) path\<rparr>) s"

definition visualizeWaypoints :: "env \<Rightarrow> Pose2d list \<Rightarrow> string \<Rightarrow> int \<Rightarrow> node \<Rightarrow> node" where
  "visualizeWaypoints e wp ns ident s =
     emit (VisuPublish \<lparr>mk_frame_id = gmap_frame_id s, mk_stamp = now e, mk_type = LINE_LIST,
        mk_ns = ns, mk_id = ident,
        mk_color = (0, 1, 0, 1),
        mk_scale = (float_0_1, 0),
        mk_points = concat (map (\<lambda>it. [(px it, py it, 0),
                       (px it + 0.8 * cos (ptheta it), py it + 0.8 * sin (ptheta it), 0)]) wp)\<rparr>) s"

definition update :: "env \<Rightarrow> node \<Rightarrow> node" where
  "update e s =
     (if \<not> active s then s
      else
        case getRobotPose e (gmap_frame_id s) s of
          (None, s1) \<Rightarrow> deactivate e s1
        | (Some robot_pose, s1) \<Rightarrow>
            let reached = pl_isGoalReached e robot_pose;
                s2 = emit (PlIsGoalReached robot_pose reached) s1
            in if reached
               then (deactivate e (emit (RosInfo ''Goal reached.'') s2))\<lparr>active := False\<rparr>
               else
                 let s3 = emit LmClearRobotFootprint s2;
                     cm = lmap_getCostmapCopy e;
                     s4 = (emit (LmGetCostmapCopy cm) s3)\<lparr>lmap_cpy := cm\<rparr>;
                     s5 = emit (PlSetLocalMap (lmap_cpy s4)) s4
                 in (case pl_update e robot_pose False of
                      Some what \<Rightarrow>
                        (deactivate e
                           (emit (RosError (''Error planning a path. Reason: '' @ what))
                              (emit (PlUpdate robot_pose False (Some what)) s5)))
                        \<lparr>active := False\<rparr>
                    | None \<Rightarrow>
                        let s6 = emit (PlUpdate robot_pose False None) s5;
                            valid = pl_hasValidPath e;
                            s7 = emit (PlHasValidPath valid) s6
                        in if \<not> valid then deactivate e s7
                           else
                             let fresh = pl_hasNewLocalPath e;
                                 s8 = emit (PlHasNewLocalPath fresh) s7
                             in if \<not> fresh then s8
                                else
                                  let s9 = emit (RosInfo ''Publishing new local path'') s8;
                                      lp = pl_getLocalPath e;
                                      s10 = publishLocalPath e lp (emit (PlGetLocalPath lp) s9);
                                      s11 = (emit (TimerRestart (now e)) s10)
                                              \<lparr>replan_timer := now e\<rparr>;
                                      wp = pl_getGlobalWaypoints e;
                                      s12 = emit (PlGetGlobalWaypoints wp) s11
                                  in visualizeWaypoints e wp ''waypoints'' 3 s12))"

definition updateMap :: "OccupancyGrid \<Rightarrow> node \<Rightarrow> node" where
  "updateMap m s = s\<lparr>gmap_cpy := m, gmap_frame_id := ''/map'', got_map := True\<rparr>"

text \<open>
  \<^verbatim>\<open>updateGoal\<close> in two parts: \<open>updateGoal\<close> stops what is running and
  brings the goal into the frame of the map (lines 126 to 143), \<open>updateGoal_plan\<close>
  is the rest of the function, from the lookup of the robot pose on (lines 145 to 186),
  run on the converted goal \<open>goal_map\<close>.
\<close>

definition updateGoal_plan :: "env \<Rightarrow> PoseStamped \<Rightarrow> node \<Rightarrow> node" where
  "updateGoal_plan e goal_map s1 =
     (case getRobotPose e (gmap_frame_id s1) s1 of
        (None, s2) \<Rightarrow> s2
      | (Some robot_pose, s2) \<Rightarrow>
          let s3 = emit (PlSetGlobalMap (gmap_cpy s2)) s2;
              s4 = emit LmClearRobotFootprint s3;
              cm = lmap_getCostmapCopy e;
              s5 = (emit (LmGetCostmapCopy cm) s4)\<lparr>lmap_cpy := cm\<rparr>;
              s6 = emit (PlSetLocalMap (lmap_cpy s5)) s5;
              pathStart = robot_pose;
              pathEnd = \<lparr>px = ps_x goal_map, py = ps_y goal_map,
                         ptheta = tf_getYaw e (ps_orientation goal_map)\<rparr>
          in (case pl_setGoal e pathStart pathEnd of
                Some what \<Rightarrow>
                  emit (RosError (''Cannot plan a path. Reason: '' @ what))
                    (emit (PlSetGoal pathStart pathEnd (Some what)) s6)
              | None \<Rightarrow>
                  let s7 = emit (PlSetGoal pathStart pathEnd None) s6;
                      valid = pl_hasValidPath e;
                      s8 = emit (PlHasValidPath valid) s7
                  in if \<not> valid then emit (RosWarn ''No path found!'') s8
                     else
                       let s9 = activate e s8;
                           path_raw = pl_getGlobalPath e;
                           s10 = visualizePath e path_raw ''global_path'' 1 1
                                   (emit (PlGetGlobalPath path_raw) s9);
                           wp = pl_getGlobalWaypoints e;
                           s11 = visualizeWaypoints e wp ''waypoints'' 3
                                   (emit (PlGetGlobalWaypoints wp) s10)
                       in emit (RosInfo ''Goal updated.'') s11))"

definition updateGoal :: "env \<Rightarrow> PoseStamped \<Rightarrow> node \<Rightarrow> node" where
  "updateGoal e goal s =
     (let s0 = deactivate e (emit (RosInfo ''Got a new goal'') s)
      in if ps_frame_id goal \<noteq> gmap_frame_id s0
         then (case tf_transformPose e (gmap_frame_id s0) goal of
                 Inl what \<Rightarrow>
                   emit (RosError (''Cannot transform goal into map coordinates. Reason: '' @ what))
                     (emit (TfTransformPose (gmap_frame_id s0) goal None) s0)
               | Inr goal_map \<Rightarrow>
                   updateGoal_plan e goal_map
                     (emit (TfTransformPose (gmap_frame_id s0) goal (Some goal_map)) s0))
         else updateGoal_plan e goal s0)"

text \<open>
  The events the node reacts to: the two subscriptions and the call of
  \<^verbatim>\<open>update\<close> in the main loop. \<open>run\<close> delivers a sequence of them in order.
\<close>

datatype event = MapUpdate OccupancyGrid | GoalRequest env PoseStamped | Tick env

fun step :: "event \<Rightarrow> node \<Rightarrow> node" where
  "step (MapUpdate m) s = updateMap m s"
| "step (GoalRequest e g) s = updateGoal e g s"
| "step (Tick e) s = update e s"

definition run :: "event list \<Rightarrow> node \<Rightarrow> node" where
  "run evs s = foldl (\<lambda>st ev. step ev st) s evs"

section \<open>Observations on the call log\<close>

text \<open>The calls a callback made: what it appended to the log of the state it started from.\<close>

definition new_calls :: "node \<Rightarrow> node \<Rightarrow> call list" where
  "new_calls s s' = drop (length (trace s)) (trace s')"

definition is_send :: "call \<Rightarrow> bool" where
  "is_send c = (case c of AcSendGoal g \<Rightarrow> True | _ \<Rightarrow> False)"

definition is_cancel :: "call \<Rightarrow> bool" where
  "is_cancel c = (case c of AcCancelAllGoals \<Rightarrow> True | _ \<Rightarrow> False)"

definition is_planner_call :: "call \<Rightarrow> bool" where
  "is_planner_call c =
     (case c of PlSetGlobalMap m \<Rightarrow> True | PlSetLocalMap m \<Rightarrow> True | PlSetGoal a b r \<Rightarrow> True
      | PlUpdate p h r \<Rightarrow> True | PlIsGoalReached p r \<Rightarrow> True | PlHasValidPath r \<Rightarrow> True
      | PlHasNewLocalPath r \<Rightarrow> True | PlGetLocalPath p \<Rightarrow> True | PlGetGlobalPath p \<Rightarrow> True
      | PlGetGlobalWaypoints p \<Rightarrow> True | _ \<Rightarrow> False)"

definition is_planner_update :: "call \<Rightarrow> bool" where
  "is_planner_update c = (case c of PlUpdate p h r \<Rightarrow> True | _ \<Rightarrow> False)"

text \<open>A path handed to the motion control: a goal of the action client or a message on the path topic.\<close>

definition is_path_push :: "call \<Rightarrow> bool" where
  "is_path_push c = (case c of AcSendGoal g \<Rightarrow> True | PathPublish p \<Rightarrow> True | _ \<Rightarrow> False)"

definition is_error_log :: "call \<Rightarrow> bool" where
  "is_error_log c = (case c of RosError m \<Rightarrow> True | _ \<Rightarrow> False)"

definition setGoal_succeeded :: "call \<Rightarrow> bool" where
  "setGoal_succeeded c = (case c of PlSetGoal a b None \<Rightarrow> True | _ \<Rightarrow> False)"

definition update_hint :: "call \<Rightarrow> bool option" where
  "update_hint c = (case c of PlUpdate p h r \<Rightarrow> Some h | _ \<Rightarrow> None)"

definition replan_hints :: "call list \<Rightarrow> bool list" where
  "replan_hints cs = List.map_filter update_hint cs"

definition stamped_frame :: "call \<Rightarrow> string option" where
  "stamped_frame c =
     (case c of PathPublish p \<Rightarrow> Some (pm_frame_id p) | VisuPublish m \<Rightarrow> Some (mk_frame_id m)
      | _ \<Rightarrow> None)"

definition stamped_frames :: "call list \<Rightarrow> string list" where
  "stamped_frames cs = List.map_filter stamped_frame cs"

text \<open>
  The motion control as the node sees it: the number of goals the action client has
  sent and not cancelled since. \<^verbatim>\<open>sendGoal\<close> adds one, \<^verbatim>\<open>cancelAllGoals\<close>
  cancels all of them. The result callback \<^verbatim>\<open>motionCtrlDoneCB\<close> of the node is
  empty, so a goal that the motion control finishes by itself changes nothing in the node.
\<close>

definition exec_step :: "nat \<Rightarrow> call \<Rightarrow> nat" where
  "exec_step n c = (case c of AcSendGoal g \<Rightarrow> Suc n | AcCancelAllGoals \<Rightarrow> 0 | _ \<Rightarrow> n)"

definition exec_held :: "call list \<Rightarrow> nat" where
  "exec_held cs = foldl exec_step 0 cs"

text \<open>
  The calls of \<^verbatim>\<open>cancelAllGoals\<close> in \<open>cs\<close> that find a goal to cancel, when
  \<open>h\<close> goals are held before the first call of \<open>cs\<close>.
\<close>

fun effective_cancels :: "nat \<Rightarrow> call list \<Rightarrow> nat" where
  "effective_cancels h [] = 0"
| "effective_cancels h (c # cs) =
     (if is_cancel c \<and> 0 < h then 1 else 0) + effective_cancels (exec_step h c) cs"

text \<open>
  Modelled from the spec: the class \<^verbatim>\<open>Stopwatch\<close> of \<^verbatim>\<open>utils/LibUtil\<close> is not
  among the sources. \<^verbatim>\<open>restart\<close> stores the current time, and the elapsed time is
  the time since the last restart (since construction, if there was none), in milliseconds.
\<close>

definition msElapsed :: "env \<Rightarrow> node \<Rightarrow> nat" where
  "msElapsed e s = now e - replan_timer s"

text \<open>The pose \<^verbatim>\<open>getRobotPose\<close> finds in the frame of the map, if the lookup succeeds.\<close>

definition robot_pose :: "env \<Rightarrow> node \<Rightarrow> Pose2d option" where
  "robot_pose e s = fst (getRobotPose e (gmap_frame_id s) s)"

text \<open>
  A tick that gets as far as \<^verbatim>\<open>hasNewLocalPath\<close> and is told that there is no
  new local path: the pose is found, the goal is not reached, \<^verbatim>\<open>planner_.update\<close>
  returns and the planner has a valid path.
\<close>

definition steady_tick :: "env \<Rightarrow> node \<Rightarrow> bool" where
  "steady_tick e s =
     (case robot_pose e s of
        None \<Rightarrow> False
      | Some p \<Rightarrow> \<not> pl_isGoalReached e p \<and> pl_update e p False = None \<and>
                  pl_hasValidPath e \<and> \<not> pl_hasNewLocalPath e)"

text \<open>A failed pose lookup or a planner update that threw, and the calls made after it.\<close>

definition is_failure :: "call \<Rightarrow> bool" where
  "is_failure c =
     (case c of TfLookupTransform target source None \<Rightarrow> True | PlUpdate p h (Some what) \<Rightarrow> True
      | _ \<Rightarrow> False)"

definition calls_after_failure :: "call list \<Rightarrow> call list" where
  "calls_after_failure cs = tl (dropWhile (\<lambda>c. \<not> is_failure c) cs)"

text \<open>A tick on which \<^verbatim>\<open>planner_.update\<close> is called and throws.\<close>

definition planner_update_throws :: "env \<Rightarrow> node \<Rightarrow> bool" where
  "planner_update_throws e s =
     (case robot_pose e s of
        None \<Rightarrow> False
      | Some p \<Rightarrow> \<not> pl_isGoalReached e p \<and> pl_update e p False \<noteq> None)"

definition is_transformPose :: "call \<Rightarrow> bool" where
  "is_transformPose c = (case c of TfTransformPose target p r \<Rightarrow> True | _ \<Rightarrow> False)"

definition is_map_update :: "event \<Rightarrow> bool" where
  "is_map_update ev = (case ev of MapUpdate m \<Rightarrow> True | _ \<Rightarrow> False)"

section \<open>Example inputs\<close>

definition pose0 :: Pose2d where
  "pose0 = \<lparr>px = 0, py = 0, ptheta = 0\<rparr>"

definition env_ok :: env where
  "env_ok =
     \<lparr>now = 1000,
      tf_lookupTransform = (\<lambda>target source. Inr \<lparr>tr_x = 0, tr_y = 0, tr_rotation = (0, 0, 0, 1)\<rparr>),
      tf_transformPose = (\<lambda>target p. Inr (p\<lparr>ps_frame_id := target\<rparr>)),
      tf_getYaw = (\<lambda>q. 0),
      tf_createQuaternionMsgFromYaw = (\<lambda>yaw. (0, 0, 0, 1)),
      lmap_getCostmapCopy = [],
      pl_setGoal = (\<lambda>a b. None),
      pl_update = (\<lambda>p h. None),
      pl_isGoalReached = (\<lambda>p. False),
      pl_hasValidPath = True,
      pl_hasNewLocalPath = False,
      pl_getLocalPath = [pose0],
      pl_getGlobalPath = [],
      pl_getGlobalWaypoints = [],
      ac_waitForServer = (\<lambda>t. True)\<rparr>"

definition env_no_tf :: env where
  "env_no_tf = env_ok\<lparr>tf_lookupTransform := (\<lambda>target source. Inl ''no transform'')\<rparr>"

definition env_reached :: env where
  "env_reached = env_ok\<lparr>pl_isGoalReached := (\<lambda>p. True)\<rparr>"

definition env_plan_error :: env where
  "env_plan_error = env_ok\<lparr>pl_update := (\<lambda>p h. Some ''no path'')\<rparr>"

definition node0 :: node where
  "node0 = CombinedPlannerNode 0 None None None"

definition map0 :: OccupancyGrid where
  "map0 = \<lparr>og_frame_id = ''/odom'', og_width = 1, og_height = 1, og_data = [0]\<rparr>"

definition goal0 :: PoseStamped where
  "goal0 = \<lparr>ps_frame_id = ''/map'', ps_x = 2, ps_y = 3, ps_orientation = (0, 0, 0, 1)\<rparr>"

definition goal_noframe :: PoseStamped where
  "goal_noframe = \<lparr>ps_frame_id = [], ps_x = 2, ps_y = 3, ps_orientation = (0, 0, 0, 1)\<rparr>"

definition node_active :: node where
  "node_active = run [MapUpdate map0, GoalRequest env_ok goal0] node0"

section \<open>What each branch of the callbacks does\<close>

text \<open>
  One lemma per path through \<^verbatim>\<open>deactivate\<close>, \<^verbatim>\<open>getRobotPose\<close> and
  \<^verbatim>\<open>update\<close>: the state it leaves and the calls it appends, in order.
\<close>

lemma deactivate_eq:
  "deactivate e s = s\<lparr>active := False, trace := trace s @ [RosInfo ''Deactivating path planner.'', AcCancelAllGoals,
       PathPublish \<lparr>pm_frame_id = gmap_frame_id s, pm_stamp = now e, pm_poses = []\<rparr>]\<rparr>"
  by (simp add: deactivate_def publishEmptyLocalPath_def emit_def)

lemma getRobotPose_fail:
  "tf_lookupTransform e f ''/base_link'' = Inl what \<Longrightarrow>
   getRobotPose e f s = (None, s\<lparr>trace := trace s @ [TfLookupTransform f ''/base_link'' None,
       RosError (''Error getting the robot position. Reason: '' @ what)]\<rparr>)"
  by (simp add: getRobotPose_def emit_def)

lemma getRobotPose_ok:
  "tf_lookupTransform e f ''/base_link'' = Inr trafo \<Longrightarrow>
   getRobotPose e f s = (Some \<lparr>px = tr_x trafo, py = tr_y trafo, ptheta = tf_getYaw e (tr_rotation trafo)\<rparr>,
      s\<lparr>trace := trace s @ [TfLookupTransform f ''/base_link'' (Some trafo)]\<rparr>)"
  by (simp add: getRobotPose_def emit_def)

lemma update_idle: "\<not> active s \<Longrightarrow> update e s = s"
  by (simp add: update_def)

lemma update_pose_fails:
  "active s \<Longrightarrow> tf_lookupTransform e (gmap_frame_id s) ''/base_link'' = Inl what \<Longrightarrow>
   update e s = s\<lparr>active := False, trace := trace s @
     [TfLookupTransform (gmap_frame_id s) ''/base_link'' None,
      RosError (''Error getting the robot position. Reason: '' @ what),
      RosInfo ''Deactivating path planner.'', AcCancelAllGoals,
      PathPublish \<lparr>pm_frame_id = gmap_frame_id s, pm_stamp = now e, pm_poses = []\<rparr>]\<rparr>"
  by (simp add: update_def getRobotPose_fail deactivate_eq)

lemma update_goal_reached:
  "active s \<Longrightarrow> tf_lookupTransform e (gmap_frame_id s) ''/base_link'' = Inr trafo \<Longrightarrow>
   p = \<lparr>px = tr_x trafo, py = tr_y trafo, ptheta = tf_getYaw e (tr_rotation trafo)\<rparr> \<Longrightarrow>
   pl_isGoalReached e p \<Longrightarrow>
   update e s = s\<lparr>active := False, trace := trace s @
     [TfLookupTransform (gmap_frame_id s) ''/base_link'' (Some trafo),
      PlIsGoalReached p True,
      RosInfo ''Goal reached.'',
      RosInfo ''Deactivating path planner.'', AcCancelAllGoals,
      PathPublish \<lparr>pm_frame_id = gmap_frame_id s, pm_stamp = now e, pm_poses = []\<rparr>]\<rparr>"
  by (simp add: update_def getRobotPose_ok deactivate_eq emit_def)

lemma update_planning_error:
  "active s \<Longrightarrow> tf_lookupTransform e (gmap_frame_id s) ''/base_link'' = Inr trafo \<Longrightarrow>
   p = \<lparr>px = tr_x trafo, py = tr_y trafo, ptheta = tf_getYaw e (tr_rotation trafo)\<rparr> \<Longrightarrow>
   \<not> pl_isGoalReached e p \<Longrightarrow> pl_update e p False = Some what \<Longrightarrow>
   update e s = s\<lparr>active := False, lmap_cpy := lmap_getCostmapCopy e, trace := trace s @
     [TfLookupTransform (gmap_frame_id s) ''/base_link'' (Some trafo),
      PlIsGoalReached p False,
      LmClearRobotFootprint, LmGetCostmapCopy (lmap_getCostmapCopy e),
      PlSetLocalMap (lmap_getCostmapCopy e),
      PlUpdate p False (Some what),
      RosError (''Error planning a path. Reason: '' @ what),
      RosInfo ''Deactivating path planner.'', AcCancelAllGoals,
      PathPublish \<lparr>pm_frame_id = gmap_frame_id s, pm_stamp = now e, pm_poses = []\<rparr>]\<rparr>"
  by (simp add: update_def getRobotPose_ok deactivate_eq emit_def Let_def)

lemma update_no_valid_path:
  "active s \<Longrightarrow> tf_lookupTransform e (gmap_frame_id s) ''/base_link'' = Inr trafo \<Longrightarrow>
   p = \<lparr>px = tr_x trafo, py = tr_y trafo, ptheta = tf_getYaw e (tr_rotation trafo)\<rparr> \<Longrightarrow>
   \<not> pl_isGoalReached e p \<Longrightarrow> pl_update e p False = None \<Longrightarrow> \<not> pl_hasValidPath e \<Longrightarrow>
   update e s = s\<lparr>active := False, lmap_cpy := lmap_getCostmapCopy e, trace := trace s @
     [TfLookupTransform (gmap_frame_id s) ''/base_link'' (Some trafo),
      PlIsGoalReached p False,
      LmClearRobotFootprint, LmGetCostmapCopy (lmap_getCostmapCopy e),
      PlSetLocalMap (lmap_getCostmapCopy e),
      PlUpdate p False None,
      PlHasValidPath False,
      RosInfo ''Deactivating path planner.'', AcCancelAllGoals,
      PathPublish \<lparr>pm_frame_id = gmap_frame_id s, pm_stamp = now e, pm_poses = []\<rparr>]\<rparr>"
  by (simp add: update_def getRobotPose_ok deactivate_eq emit_def Let_def)

lemma update_no_new_path:
  "active s \<Longrightarrow> tf_lookupTransform e (gmap_frame_id s) ''/base_link'' = Inr trafo \<Longrightarrow>
   p = \<lparr>px = tr_x trafo, py = tr_y trafo, ptheta = tf_getYaw e (tr_rotation trafo)\<rparr> \<Longrightarrow>
   \<not> pl_isGoalReached e p \<Longrightarrow> pl_update e p False = None \<Longrightarrow> pl_hasValidPath e \<Longrightarrow>
   \<not> pl_hasNewLocalPath e \<Longrightarrow>
   update e s = s\<lparr>lmap_cpy := lmap_getCostmapCopy e, trace := trace s @
     [TfLookupTransform (gmap_frame_id s) ''/base_link'' (Some trafo),
      PlIsGoalReached p False,
      LmClearRobotFootprint, LmGetCostmapCopy (lmap_getCostmapCopy e),
      PlSetLocalMap (lmap_getCostmapCopy e),
      PlUpdate p False None,
      PlHasValidPath True,
      PlHasNewLocalPath False]\<rparr>"
  by (simp add: update_def getRobotPose_ok deactivate_eq emit_def Let_def)

lemma update_new_path:
  "active s \<Longrightarrow> tf_lookupTransform e (gmap_frame_id s) ''/base_link'' = Inr trafo \<Longrightarrow>
   p = \<lparr>px = tr_x trafo, py = tr_y trafo, ptheta = tf_getYaw e (tr_rotation trafo)\<rparr> \<Longrightarrow>
   \<not> pl_isGoalReached e p \<Longrightarrow> pl_update e p False = None \<Longrightarrow> pl_hasValidPath e \<Longrightarrow>
   pl_hasNewLocalPath e \<Longrightarrow>
   update e s = s\<lparr>lmap_cpy := lmap_getCostmapCopy e, replan_timer := now e, trace := trace s @
     [TfLookupTransform (gmap_frame_id s) ''/base_link'' (Some trafo),
      PlIsGoalReached p False,
      LmClearRobotFootprint, LmGetCostmapCopy (lmap_getCostmapCopy e),
      PlSetLocalMap (lmap_getCostmapCopy e),
      PlUpdate p False None,
      PlHasValidPath True,
      PlHasNewLocalPath True,
      RosInfo ''Publishing new local path'',
      PlGetLocalPath (pl_getLocalPath e),
      PathPublish \<lparr>pm_frame_id = gmap_frame_id s, pm_stamp = now e,
        pm_poses = plannerPathToRos e (pl_getLocalPath e)\<rparr>,
      TimerRestart (now e),
      PlGetGlobalWaypoints (pl_getGlobalWaypoints e),
      VisuPublish \<lparr>mk_frame_id = gmap_frame_id s, mk_stamp = now e, mk_type = LINE_LIST,
        mk_ns = ''waypoints'', mk_id = 3, mk_color = (0, 1, 0, 1), mk_scale = (float_0_1, 0),
        mk_points = concat (map (\<lambda>it. [(px it, py it, 0),
                       (px it + 0.8 * cos (ptheta it), py it + 0.8 * sin (ptheta it), 0)])
                       (pl_getGlobalWaypoints e))\<rparr>]\<rparr>"
  by (simp add: update_def getRobotPose_ok deactivate_eq emit_def Let_def publishLocalPath_def
        visualizeWaypoints_def plannerPathToRos_def)

lemma activate_eq:
  "\<not> active s \<Longrightarrow>
   activate e s =
     (if ac_waitForServer e 1.0
      then s\<lparr>active := True, trace := trace s @
             [AcWaitForServer 1.0 True, PlGetLocalPath (pl_getLocalPath e),
              AcSendGoal \<lparr>mg_mode = MOTION_FOLLOW_PATH, mg_path_topic = path_topic s,
                mg_path_poses = plannerPathToRos e (pl_getLocalPath e), mg_v = 0.7,
                mg_pos_tolerance = 0.20\<rparr>]\<rparr>
      else s\<lparr>trace := trace s @
             [AcWaitForServer 1.0 False,
              RosWarn ''Motion control action server didn't connect within 1.0 seconds'']\<rparr>)"
  by (simp add: activate_def emit_def Let_def)

lemma exec_held_append: "exec_held (cs @ ds) = foldl exec_step (exec_held cs) ds"
  by (simp add: exec_held_def)

lemma plan_pose_fails:
  "tf_lookupTransform e (gmap_frame_id s) ''/base_link'' = Inl what \<Longrightarrow>
   updateGoal_plan e goal_map s = s\<lparr>trace := trace s @
     [TfLookupTransform (gmap_frame_id s) ''/base_link'' None,
      RosError (''Error getting the robot position. Reason: '' @ what)]\<rparr>"
  by (simp add: updateGoal_plan_def getRobotPose_fail)

lemma plan_setGoal_fails:
  "tf_lookupTransform e (gmap_frame_id s) ''/base_link'' = Inr trafo \<Longrightarrow>
   pathStart = \<lparr>px = tr_x trafo, py = tr_y trafo, ptheta = tf_getYaw e (tr_rotation trafo)\<rparr> \<Longrightarrow>
   pathEnd = \<lparr>px = ps_x goal_map, py = ps_y goal_map, ptheta = tf_getYaw e (ps_orientation goal_map)\<rparr> \<Longrightarrow>
   pl_setGoal e pathStart pathEnd = Some what \<Longrightarrow>
   updateGoal_plan e goal_map s = s\<lparr>lmap_cpy := lmap_getCostmapCopy e, trace := trace s @
     [TfLookupTransform (gmap_frame_id s) ''/base_link'' (Some trafo),
      PlSetGlobalMap (gmap_cpy s), LmClearRobotFootprint,
      LmGetCostmapCopy (lmap_getCostmapCopy e), PlSetLocalMap (lmap_getCostmapCopy e),
      PlSetGoal pathStart pathEnd (Some what),
      RosError (''Cannot plan a path. Reason: '' @ what)]\<rparr>"
  by (simp add: updateGoal_plan_def getRobotPose_ok emit_def Let_def)

lemma plan_no_path:
  "tf_lookupTransform e (gmap_frame_id s) ''/base_link'' = Inr trafo \<Longrightarrow>
   pathStart = \<lparr>px = tr_x trafo, py = tr_y trafo, ptheta = tf_getYaw e (tr_rotation trafo)\<rparr> \<Longrightarrow>
   pathEnd = \<lparr>px = ps_x goal_map, py = ps_y goal_map, ptheta = tf_getYaw e (ps_orientation goal_map)\<rparr> \<Longrightarrow>
   pl_setGoal e pathStart pathEnd = None \<Longrightarrow> \<not> pl_hasValidPath e \<Longrightarrow>
   updateGoal_plan e goal_map s = s\<lparr>lmap_cpy := lmap_getCostmapCopy e, trace := trace s @
     [TfLookupTransform (gmap_frame_id s) ''/base_link'' (Some trafo),
      PlSetGlobalMap (gmap_cpy s), LmClearRobotFootprint,
      LmGetCostmapCopy (lmap_getCostmapCopy e), PlSetLocalMap (lmap_getCostmapCopy e),
      PlSetGoal pathStart pathEnd None,
      PlHasValidPath False, RosWarn ''No path found!'']\<rparr>"
  by (simp add: updateGoal_plan_def getRobotPose_ok emit_def Let_def)

lemma plan_not_ready:
  "\<not> active s \<Longrightarrow>
   tf_lookupTransform e (gmap_frame_id s) ''/base_link'' = Inr trafo \<Longrightarrow>
   pathStart = \<lparr>px = tr_x trafo, py = tr_y trafo, ptheta = tf_getYaw e (tr_rotation trafo)\<rparr> \<Longrightarrow>
   pathEnd = \<lparr>px = ps_x goal_map, py = ps_y goal_map, ptheta = tf_getYaw e (ps_orientation goal_map)\<rparr> \<Longrightarrow>
   pl_setGoal e pathStart pathEnd = None \<Longrightarrow> pl_hasValidPath e \<Longrightarrow>
   \<not> ac_waitForServer e 1.0 \<Longrightarrow>
   updateGoal_plan e goal_map s = s\<lparr>lmap_cpy := lmap_getCostmapCopy e, trace := trace s @
     [TfLookupTransform (gmap_frame_id s) ''/base_link'' (Some trafo),
      PlSetGlobalMap (gmap_cpy s), LmClearRobotFootprint,
      LmGetCostmapCopy (lmap_getCostmapCopy e), PlSetLocalMap (lmap_getCostmapCopy e),
      PlSetGoal pathStart pathEnd None,
      PlHasValidPath True,
      AcWaitForServer 1.0 False,
      RosWarn ''Motion control action server didn't connect within 1.0 seconds'',
      PlGetGlobalPath (pl_getGlobalPath e),
      VisuPublish \<lparr>mk_frame_id = gmap_frame_id s, mk_stamp = now e, mk_type = LINE_STRIP,
        mk_ns = ''global_path'', mk_id = 1, mk_color = (0, 0, 1, 0.75), mk_scale = (float_0_1, float_0_1),
        mk_points = map (\<lambda>it. (ptx it, pty it, 0)) (pl_getGlobalPath e)\<rparr>,
      PlGetGlobalWaypoints (pl_getGlobalWaypoints e),
      VisuPublish \<lparr>mk_frame_id = gmap_frame_id s, mk_stamp = now e, mk_type = LINE_LIST,
        mk_ns = ''waypoints'', mk_id = 3, mk_color = (0, 1, 0, 1), mk_scale = (float_0_1, 0),
        mk_points = concat (map (\<lambda>it. [(px it, py it, 0),
                       (px it + 0.8 * cos (ptheta it), py it + 0.8 * sin (ptheta it), 0)])
                       (pl_getGlobalWaypoints e))\<rparr>,
      RosInfo ''Goal updated.'']\<rparr>"
  by (simp add: updateGoal_plan_def getRobotPose_ok emit_def Let_def activate_eq
        visualizePath_def visualizeWaypoints_def)

lemma plan_activates:
  "\<not> active s \<Longrightarrow>
   tf_lookupTransform e (gmap_frame_id s) ''/base_link'' = Inr trafo \<Longrightarrow>
   pathStart = \<lparr>px = tr_x trafo, py = tr_y trafo, ptheta = tf_getYaw e (tr_rotation trafo)\<rparr> \<Longrightarrow>
   pathEnd = \<lparr>px = ps_x goal_map, py = ps_y goal_map, ptheta = tf_getYaw e (ps_orientation goal_map)\<rparr> \<Longrightarrow>
   pl_setGoal e pathStart pathEnd = None \<Longrightarrow> pl_hasValidPath e \<Longrightarrow>
   ac_waitForServer e 1.0 \<Longrightarrow>
   updateGoal_plan e goal_map s = s\<lparr>active := True, lmap_cpy := lmap_getCostmapCopy e, trace := trace s @
     [TfLookupTransform (gmap_frame_id s) ''/base_link'' (Some trafo),
      PlSetGlobalMap (gmap_cpy s), LmClearRobotFootprint,
      LmGetCostmapCopy (lmap_getCostmapCopy e), PlSetLocalMap (lmap_getCostmapCopy e),
      PlSetGoal pathStart pathEnd None,
      PlHasValidPath True,
      AcWaitForServer 1.0 True, PlGetLocalPath (pl_getLocalPath e),
      AcSendGoal \<lparr>mg_mode = MOTION_FOLLOW_PATH, mg_path_topic = path_topic s,
                mg_path_poses = plannerPathToRos e (pl_getLocalPath e), mg_v = 0.7,
                mg_pos_tolerance = 0.20\<rparr>,
      PlGetGlobalPath (pl_getGlobalPath e),
      VisuPublish \<lparr>mk_frame_id = gmap_frame_id s, mk_stamp = now e, mk_type = LINE_STRIP,
        mk_ns = ''global_path'', mk_id = 1, mk_color = (0, 0, 1, 0.75), mk_scale = (float_0_1, float_0_1),
        mk_points = map (\<lambda>it. (ptx it, pty it, 0)) (pl_getGlobalPath e)\<rparr>,
      PlGetGlobalWaypoints (pl_getGlobalWaypoints e),
      VisuPublish \<lparr>mk_frame_id = gmap_frame_id s, mk_stamp = now e, mk_type = LINE_LIST,
        mk_ns = ''waypoints'', mk_id = 3, mk_color = (0, 1, 0, 1), mk_scale = (float_0_1, 0),
        mk_points = concat (map (\<lambda>it. [(px it, py it, 0),
                       (px it + 0.8 * cos (ptheta it), py it + 0.8 * sin (ptheta it), 0)])
                       (pl_getGlobalWaypoints e))\<rparr>,
      RosInfo ''Goal updated.'']\<rparr>"
  by (simp add: updateGoal_plan_def getRobotPose_ok emit_def Let_def activate_eq
        visualizePath_def visualizeWaypoints_def)

lemma new_calls_ext: "trace s' = trace s @ cs \<Longrightarrow> new_calls s s' = cs"
  by (simp add: new_calls_def)

lemma plan_atomic:
  assumes idle: "\<not> active s"
  shows "\<exists>cs. trace (updateGoal_plan e g s) = trace s @ cs \<and>
     ((list_ex setGoal_succeeded cs \<and> PlHasValidPath True \<in> set cs \<and>
        AcWaitForServer 1.0 True \<in> set cs \<and>
        active (updateGoal_plan e g s) \<and> length (filter is_send cs) = 1 \<and> foldl exec_step 0 cs = 1)
     \<or> (\<not> (list_ex setGoal_succeeded cs \<and> PlHasValidPath True \<in> set cs \<and>
             AcWaitForServer 1.0 True \<in> set cs) \<and>
        \<not> active (updateGoal_plan e g s) \<and> length (filter is_send cs) = 0 \<and> foldl exec_step 0 cs = 0))"
proof (cases "tf_lookupTransform e (gmap_frame_id s) ''/base_link''")
  case (Inl what)
  show ?thesis
    using idle by (simp add: plan_pose_fails [OF Inl] setGoal_succeeded_def is_send_def exec_step_def)
next
  case (Inr trafo)
  let ?a = "\<lparr>px = tr_x trafo, py = tr_y trafo, ptheta = tf_getYaw e (tr_rotation trafo)\<rparr>"
  let ?b = "\<lparr>px = ps_x g, py = ps_y g, ptheta = tf_getYaw e (ps_orientation g)\<rparr>"
  show ?thesis
  proof (cases "pl_setGoal e ?a ?b")
    case (Some what)
    show ?thesis
      using idle
      by (simp add: plan_setGoal_fails [OF Inr refl refl Some] setGoal_succeeded_def is_send_def
            exec_step_def)
  next
    case None
    show ?thesis
    proof (cases "pl_hasValidPath e")
      case False
      show ?thesis
        using idle
        by (simp add: plan_no_path [OF Inr refl refl None False] setGoal_succeeded_def is_send_def
              exec_step_def)
    next
      case True
      show ?thesis
      proof (cases "ac_waitForServer e 1.0")
        case False
        show ?thesis
          using idle
          by (simp add: plan_not_ready [OF idle Inr refl refl None True False]
                setGoal_succeeded_def is_send_def exec_step_def)
      next
        case ready: True
        show ?thesis
          using idle
          by (simp add: plan_activates [OF idle Inr refl refl None True ready]
                setGoal_succeeded_def is_send_def exec_step_def)
      qed
    qed
  qed
qed

lemma updateGoal_atomic:
  "let s' = updateGoal e goal s; cs = new_calls s s' in
     (list_ex setGoal_succeeded cs \<and> PlHasValidPath True \<in> set cs \<and>
        AcWaitForServer 1.0 True \<in> set cs \<and>
        active s' \<and> length (filter is_send cs) = 1 \<and> exec_held (trace s') = 1)
     \<or> (\<not> (list_ex setGoal_succeeded cs \<and> PlHasValidPath True \<in> set cs \<and>
             AcWaitForServer 1.0 True \<in> set cs) \<and>
        \<not> active s' \<and> length (filter is_send cs) = 0 \<and> exec_held (trace s') = 0)"
proof -
  define s0 where "s0 = deactivate e (emit (RosInfo ''Got a new goal'') s)"
  have idle0: "\<not> active s0"
    by (simp add: s0_def deactivate_eq)
  have tr0: "trace s0 = trace s @ [RosInfo ''Got a new goal'', RosInfo ''Deactivating path planner.'',
      AcCancelAllGoals, PathPublish \<lparr>pm_frame_id = gmap_frame_id s, pm_stamp = now e, pm_poses = []\<rparr>]"
    by (simp add: s0_def deactivate_eq emit_def)
  show ?thesis
  proof (cases "ps_frame_id goal \<noteq> gmap_frame_id s0")
    case False
    then have ug: "updateGoal e goal s = updateGoal_plan e goal s0"
      by (simp add: updateGoal_def s0_def Let_def)
    from plan_atomic [OF idle0, of e goal] obtain cs where
      cs: "trace (updateGoal_plan e goal s0) = trace s0 @ cs" and
      alt: "(list_ex setGoal_succeeded cs \<and> PlHasValidPath True \<in> set cs \<and>
        AcWaitForServer 1.0 True \<in> set cs \<and>
        active (updateGoal_plan e goal s0) \<and> length (filter is_send cs) = 1 \<and> foldl exec_step 0 cs = 1)
     \<or> (\<not> (list_ex setGoal_succeeded cs \<and> PlHasValidPath True \<in> set cs \<and>
             AcWaitForServer 1.0 True \<in> set cs) \<and>
        \<not> active (updateGoal_plan e goal s0) \<and> length (filter is_send cs) = 0 \<and> foldl exec_step 0 cs = 0)"
      by blast
    have nc: "new_calls s (updateGoal e goal s) = [RosInfo ''Got a new goal'', RosInfo ''Deactivating path planner.'',
      AcCancelAllGoals, PathPublish \<lparr>pm_frame_id = gmap_frame_id s, pm_stamp = now e, pm_poses = []\<rparr>] @ cs"
      by (rule new_calls_ext) (simp add: ug cs tr0)
    have held: "exec_held (trace (updateGoal e goal s)) = foldl exec_step 0 cs"
      by (simp add: ug cs tr0 exec_held_append exec_step_def)
    show ?thesis
      unfolding Let_def nc held using alt by (simp add: ug setGoal_succeeded_def is_send_def)
  next
    case True
    show ?thesis
    proof (cases "tf_transformPose e (gmap_frame_id s0) goal")
      case (Inl what)
      have ug: "updateGoal e goal s = emit (RosError (''Cannot transform goal into map coordinates. Reason: '' @ what))
                     (emit (TfTransformPose (gmap_frame_id s0) goal None) s0)"
        using True Inl by (simp add: updateGoal_def s0_def [symmetric] Let_def)
      have nc: "new_calls s (updateGoal e goal s) = [RosInfo ''Got a new goal'', RosInfo ''Deactivating path planner.'',
         AcCancelAllGoals, PathPublish \<lparr>pm_frame_id = gmap_frame_id s, pm_stamp = now e, pm_poses = []\<rparr>,
         TfTransformPose (gmap_frame_id s0) goal None,
         RosError (''Cannot transform goal into map coordinates. Reason: '' @ what)]"
        by (rule new_calls_ext) (simp add: ug tr0 emit_def)
      have held: "exec_held (trace (updateGoal e goal s)) = 0"
        by (simp add: ug tr0 emit_def exec_held_append exec_step_def)
      show ?thesis
        unfolding Let_def nc held using idle0 by (simp add: ug emit_def setGoal_succeeded_def is_send_def)
    next
      case (Inr gm)
      define s1 where "s1 = emit (TfTransformPose (gmap_frame_id s0) goal (Some gm)) s0"
      have ug: "updateGoal e goal s = updateGoal_plan e gm s1"
        using True Inr by (simp add: updateGoal_def s0_def [symmetric] s1_def Let_def)
      have idle1: "\<not> active s1"
        using idle0 by (simp add: s1_def emit_def)
      have tr1: "trace s1 = trace s @ [RosInfo ''Got a new goal'', RosInfo ''Deactivating path planner.'',
         AcCancelAllGoals, PathPublish \<lparr>pm_frame_id = gmap_frame_id s, pm_stamp = now e, pm_poses = []\<rparr>,
         TfTransformPose (gmap_frame_id s0) goal (Some gm)]"
        by (simp add: s1_def emit_def tr0)
      from plan_atomic [OF idle1, of e gm] obtain cs where
        cs: "trace (updateGoal_plan e gm s1) = trace s1 @ cs" and
        alt: "(list_ex setGoal_succeeded cs \<and> PlHasValidPath True \<in> set cs \<and>
          AcWaitForServer 1.0 True \<in> set cs \<and>
          active (updateGoal_plan e gm s1) \<and> length (filter is_send cs) = 1 \<and> foldl exec_step 0 cs = 1)
       \<or> (\<not> (list_ex setGoal_succeeded cs \<and> PlHasValidPath True \<in> set cs \<and>
               AcWaitForServer 1.0 True \<in> set cs) \<and>
          \<not> active (updateGoal_plan e gm s1) \<and> length (filter is_send cs) = 0 \<and> foldl exec_step 0 cs = 0)"
        by blast
      have nc: "new_calls s (updateGoal e goal s) = [RosInfo ''Got a new goal'', RosInfo ''Deactivating path planner.'',
         AcCancelAllGoals, PathPublish \<lparr>pm_frame_id = gmap_frame_id s, pm_stamp = now e, pm_poses = []\<rparr>,
         TfTransformPose (gmap_frame_id s0) goal (Some gm)] @ cs"
        by (rule new_calls_ext) (simp add: ug cs tr1)
      have held: "exec_held (trace (updateGoal e goal s)) = foldl exec_step 0 cs"
        by (simp add: ug cs tr1 exec_held_append exec_step_def)
      show ?thesis
        unfolding Let_def nc held using alt by (simp add: ug setGoal_succeeded_def is_send_def)
    qed
  qed
qed

lemma robot_pose_None:
  "robot_pose e s = None \<Longrightarrow> \<exists>what. tf_lookupTransform e (gmap_frame_id s) ''/base_link'' = Inl what"
  by (cases "tf_lookupTransform e (gmap_frame_id s) ''/base_link''")
     (simp_all add: robot_pose_def getRobotPose_def)

lemma robot_pose_Some:
  "robot_pose e s = Some p \<Longrightarrow>
   \<exists>trafo. tf_lookupTransform e (gmap_frame_id s) ''/base_link'' = Inr trafo \<and>
     p = \<lparr>px = tr_x trafo, py = tr_y trafo, ptheta = tf_getYaw e (tr_rotation trafo)\<rparr>"
  by (cases "tf_lookupTransform e (gmap_frame_id s) ''/base_link''")
     (auto simp add: robot_pose_def getRobotPose_def)

lemma robot_pose_frame:
  "gmap_frame_id s' = gmap_frame_id s \<Longrightarrow> robot_pose e s' = robot_pose e s"
  by (cases "tf_lookupTransform e (gmap_frame_id s) ''/base_link''")
     (simp_all add: robot_pose_def getRobotPose_def)

text \<open>The six ways a tick of an active node can go.\<close>

lemma tick_outcomes:
  obtains
    (pose_fails) what where
      "tf_lookupTransform e (gmap_frame_id s) ''/base_link'' = Inl what"
  | (reached) trafo where
      "tf_lookupTransform e (gmap_frame_id s) ''/base_link'' = Inr trafo"
      "pl_isGoalReached e \<lparr>px = tr_x trafo, py = tr_y trafo, ptheta = tf_getYaw e (tr_rotation trafo)\<rparr>"
  | (plan_error) trafo what where
      "tf_lookupTransform e (gmap_frame_id s) ''/base_link'' = Inr trafo"
      "\<not> pl_isGoalReached e \<lparr>px = tr_x trafo, py = tr_y trafo, ptheta = tf_getYaw e (tr_rotation trafo)\<rparr>"
      "pl_update e \<lparr>px = tr_x trafo, py = tr_y trafo, ptheta = tf_getYaw e (tr_rotation trafo)\<rparr> False = Some what"
  | (no_valid_path) trafo where
      "tf_lookupTransform e (gmap_frame_id s) ''/base_link'' = Inr trafo"
      "\<not> pl_isGoalReached e \<lparr>px = tr_x trafo, py = tr_y trafo, ptheta = tf_getYaw e (tr_rotation trafo)\<rparr>"
      "pl_update e \<lparr>px = tr_x trafo, py = tr_y trafo, ptheta = tf_getYaw e (tr_rotation trafo)\<rparr> False = None"
      "\<not> pl_hasValidPath e"
  | (no_new_path) trafo where
      "tf_lookupTransform e (gmap_frame_id s) ''/base_link'' = Inr trafo"
      "\<not> pl_isGoalReached e \<lparr>px = tr_x trafo, py = tr_y trafo, ptheta = tf_getYaw e (tr_rotation trafo)\<rparr>"
      "pl_update e \<lparr>px = tr_x trafo, py = tr_y trafo, ptheta = tf_getYaw e (tr_rotation trafo)\<rparr> False = None"
      "pl_hasValidPath e" "\<not> pl_hasNewLocalPath e"
  | (new_path) trafo where
      "tf_lookupTransform e (gmap_frame_id s) ''/base_link'' = Inr trafo"
      "\<not> pl_isGoalReached e \<lparr>px = tr_x trafo, py = tr_y trafo, ptheta = tf_getYaw e (tr_rotation trafo)\<rparr>"
      "pl_update e \<lparr>px = tr_x trafo, py = tr_y trafo, ptheta = tf_getYaw e (tr_rotation trafo)\<rparr> False = None"
      "pl_hasValidPath e" "pl_hasNewLocalPath e"
proof (cases "tf_lookupTransform e (gmap_frame_id s) ''/base_link''")
  case (Inl what)
  then show ?thesis by (rule pose_fails)
next
  case (Inr trafo)
  let ?p = "\<lparr>px = tr_x trafo, py = tr_y trafo, ptheta = tf_getYaw e (tr_rotation trafo)\<rparr>"
  show ?thesis
  proof (cases "pl_isGoalReached e ?p")
    case True
    with Inr show ?thesis by (rule reached)
  next
    case nr: False
    show ?thesis
    proof (cases "pl_update e ?p False")
      case (Some what)
      with Inr nr show ?thesis by (rule plan_error)
    next
      case None
      show ?thesis
      proof (cases "pl_hasValidPath e")
        case False
        with Inr nr None show ?thesis by (rule no_valid_path)
      next
        case v: True
        show ?thesis
        proof (cases "pl_hasNewLocalPath e")
          case False
          with Inr nr None v show ?thesis by (rule no_new_path)
        next
          case True
          with Inr nr None v show ?thesis by (rule new_path)
        qed
      qed
    qed
  qed
qed

lemma update_held:
  assumes inv: "exec_held (trace s) = (if active s then 1 else 0)"
  shows "exec_held (trace (update e s)) = (if active (update e s) then 1 else 0)"
proof (cases "active s")
  case False
  with inv show ?thesis by (simp add: update_idle)
next
  case act: True
  with inv have h: "exec_held (trace s) = 1" by simp
  show ?thesis
  proof (cases rule: tick_outcomes [of e s])
    case (pose_fails what)
    show ?thesis
      by (simp add: update_pose_fails [OF act pose_fails] exec_held_append exec_step_def)
  next
    case (reached trafo)
    show ?thesis
      by (simp add: update_goal_reached [OF act reached(1) refl reached(2)] exec_held_append exec_step_def)
  next
    case (plan_error trafo what)
    show ?thesis
      by (simp add: update_planning_error [OF act plan_error(1) refl plan_error(2,3)]
            exec_held_append exec_step_def)
  next
    case (no_valid_path trafo)
    show ?thesis
      by (simp add: update_no_valid_path [OF act no_valid_path(1) refl no_valid_path(2,3,4)]
            exec_held_append exec_step_def)
  next
    case (no_new_path trafo)
    show ?thesis
      using act h
      by (simp add: update_no_new_path [OF act no_new_path(1) refl no_new_path(2,3,4,5)]
            exec_held_append exec_step_def)
  next
    case (new_path trafo)
    show ?thesis
      using act h
      by (simp add: update_new_path [OF act new_path(1) refl new_path(2,3,4,5)]
            exec_held_append exec_step_def)
  qed
qed

lemma updateGoal_held:
  "exec_held (trace (updateGoal e g s)) = (if active (updateGoal e g s) then 1 else 0)"
  using updateGoal_atomic [of e g s] by (auto simp add: Let_def)

lemma step_held:
  "exec_held (trace s) = (if active s then 1 else 0) \<Longrightarrow>
   exec_held (trace (step ev s)) = (if active (step ev s) then 1 else 0)"
  by (cases ev) (simp_all add: updateMap_def updateGoal_held update_held)

lemma run_held:
  "exec_held (trace s) = (if active s then 1 else 0) \<Longrightarrow>
   exec_held (trace (run evs s)) = (if active (run evs s) then 1 else 0)"
  unfolding run_def
  by (induction evs arbitrary: s) (simp_all add: step_held)

lemma update_deactivates_by_cancel:
  assumes act: "active s" and idle: "\<not> active (update e s)"
  shows "list_ex is_cancel (new_calls s (update e s))"
proof (cases rule: tick_outcomes [of e s])
  case (pose_fails what)
  show ?thesis
    by (simp add: update_pose_fails [OF act pose_fails] new_calls_def is_cancel_def)
next
  case (reached trafo)
  show ?thesis
    by (simp add: update_goal_reached [OF act reached(1) refl reached(2)] new_calls_def is_cancel_def)
next
  case (plan_error trafo what)
  show ?thesis
    by (simp add: update_planning_error [OF act plan_error(1) refl plan_error(2,3)]
          new_calls_def is_cancel_def)
next
  case (no_valid_path trafo)
  show ?thesis
    by (simp add: update_no_valid_path [OF act no_valid_path(1) refl no_valid_path(2,3,4)]
          new_calls_def is_cancel_def)
next
  case (no_new_path trafo)
  show ?thesis
    using act idle
    by (simp add: update_no_new_path [OF act no_new_path(1) refl no_new_path(2,3,4,5)])
next
  case (new_path trafo)
  show ?thesis
    using act idle
    by (simp add: update_new_path [OF act new_path(1) refl new_path(2,3,4,5)])
qed

text \<open>The three ways a goal request can go before the planner is asked.\<close>

lemma updateGoal_outcomes:
  obtains
    (dropped) what where
      "ps_frame_id goal \<noteq> gmap_frame_id s"
      "tf_transformPose e (gmap_frame_id s) goal = Inl what"
      "updateGoal e goal s = s\<lparr>active := False, trace := trace s @
         [RosInfo ''Got a new goal'', RosInfo ''Deactivating path planner.'', AcCancelAllGoals,
          PathPublish \<lparr>pm_frame_id = gmap_frame_id s, pm_stamp = now e, pm_poses = []\<rparr>,
          TfTransformPose (gmap_frame_id s) goal None,
          RosError (''Cannot transform goal into map coordinates. Reason: '' @ what)]\<rparr>"
  | (converted) goal_map where
      "ps_frame_id goal \<noteq> gmap_frame_id s"
      "tf_transformPose e (gmap_frame_id s) goal = Inr goal_map"
      "updateGoal e goal s = updateGoal_plan e goal_map (s\<lparr>active := False, trace := trace s @
         [RosInfo ''Got a new goal'', RosInfo ''Deactivating path planner.'', AcCancelAllGoals,
          PathPublish \<lparr>pm_frame_id = gmap_frame_id s, pm_stamp = now e, pm_poses = []\<rparr>,
          TfTransformPose (gmap_frame_id s) goal (Some goal_map)]\<rparr>)"
  | (same_frame)
      "ps_frame_id goal = gmap_frame_id s"
      "updateGoal e goal s = updateGoal_plan e goal (s\<lparr>active := False, trace := trace s @
         [RosInfo ''Got a new goal'', RosInfo ''Deactivating path planner.'', AcCancelAllGoals,
          PathPublish \<lparr>pm_frame_id = gmap_frame_id s, pm_stamp = now e, pm_poses = []\<rparr>]\<rparr>)"
proof (cases "ps_frame_id goal = gmap_frame_id s")
  case True
  then show ?thesis
    by (intro same_frame) (simp_all add: updateGoal_def deactivate_eq emit_def Let_def)
next
  case diff: False
  show ?thesis
  proof (cases "tf_transformPose e (gmap_frame_id s) goal")
    case (Inl what)
    with diff show ?thesis
      by (intro dropped [of what]) (simp_all add: updateGoal_def deactivate_eq emit_def Let_def)
  next
    case (Inr goal_map)
    with diff show ?thesis
      by (intro converted [of goal_map]) (simp_all add: updateGoal_def deactivate_eq emit_def Let_def)
  qed
qed

text \<open>The five ways the rest of a goal request can go.\<close>

lemma plan_outcomes:
  obtains
    (pose_fails) what where
      "tf_lookupTransform e (gmap_frame_id s) ''/base_link'' = Inl what"
  | (setGoal_fails) trafo what where
      "tf_lookupTransform e (gmap_frame_id s) ''/base_link'' = Inr trafo"
      "pl_setGoal e \<lparr>px = tr_x trafo, py = tr_y trafo, ptheta = tf_getYaw e (tr_rotation trafo)\<rparr>
         \<lparr>px = ps_x g, py = ps_y g, ptheta = tf_getYaw e (ps_orientation g)\<rparr> = Some what"
  | (no_path) trafo where
      "tf_lookupTransform e (gmap_frame_id s) ''/base_link'' = Inr trafo"
      "pl_setGoal e \<lparr>px = tr_x trafo, py = tr_y trafo, ptheta = tf_getYaw e (tr_rotation trafo)\<rparr>
         \<lparr>px = ps_x g, py = ps_y g, ptheta = tf_getYaw e (ps_orientation g)\<rparr> = None"
      "\<not> pl_hasValidPath e"
  | (not_ready) trafo where
      "tf_lookupTransform e (gmap_frame_id s) ''/base_link'' = Inr trafo"
      "pl_setGoal e \<lparr>px = tr_x trafo, py = tr_y trafo, ptheta = tf_getYaw e (tr_rotation trafo)\<rparr>
         \<lparr>px = ps_x g, py = ps_y g, ptheta = tf_getYaw e (ps_orientation g)\<rparr> = None"
      "pl_hasValidPath e" "\<not> ac_waitForServer e 1.0"
  | (activates) trafo where
      "tf_lookupTransform e (gmap_frame_id s) ''/base_link'' = Inr trafo"
      "pl_setGoal e \<lparr>px = tr_x trafo, py = tr_y trafo, ptheta = tf_getYaw e (tr_rotation trafo)\<rparr>
         \<lparr>px = ps_x g, py = ps_y g, ptheta = tf_getYaw e (ps_orientation g)\<rparr> = None"
      "pl_hasValidPath e" "ac_waitForServer e 1.0"
proof (cases "tf_lookupTransform e (gmap_frame_id s) ''/base_link''")
  case (Inl what)
  then show ?thesis by (rule pose_fails)
next
  case (Inr trafo)
  show ?thesis
  proof (cases "pl_setGoal e \<lparr>px = tr_x trafo, py = tr_y trafo, ptheta = tf_getYaw e (tr_rotation trafo)\<rparr>
         \<lparr>px = ps_x g, py = ps_y g, ptheta = tf_getYaw e (ps_orientation g)\<rparr>")
    case (Some what)
    with Inr show ?thesis by (rule setGoal_fails)
  next
    case None
    show ?thesis
    proof (cases "pl_hasValidPath e")
      case False
      with Inr None show ?thesis by (rule no_path)
    next
      case v: True
      show ?thesis
      proof (cases "ac_waitForServer e 1.0")
        case False
        with Inr None v show ?thesis by (rule not_ready)
      next
        case True
        with Inr None v show ?thesis by (rule activates)
      qed
    qed
  qed
qed

text \<open>
  What the rest of a goal request leaves alone: the frame of the map and the flag
  \<^verbatim>\<open>got_map_\<close>; it cancels nothing, and stamps what it publishes with the stored frame.
\<close>

lemma plan_frames:
  assumes idle: "\<not> active s"
  shows "\<exists>cs. trace (updateGoal_plan e g s) = trace s @ cs \<and>
     gmap_frame_id (updateGoal_plan e g s) = gmap_frame_id s \<and>
     (\<forall>f \<in> set (stamped_frames cs). f = gmap_frame_id s)"
proof (cases rule: plan_outcomes [where e = e and s = s and g = g])
  case (pose_fails what)
  show ?thesis
    by (simp add: plan_pose_fails [OF pose_fails] stamped_frames_def stamped_frame_def)
next
  case (setGoal_fails trafo what)
  show ?thesis
    by (simp add: plan_setGoal_fails [OF setGoal_fails(1) refl refl setGoal_fails(2)]
          stamped_frames_def stamped_frame_def)
next
  case (no_path trafo)
  show ?thesis
    by (simp add: plan_no_path [OF no_path(1) refl refl no_path(2,3)]
          stamped_frames_def stamped_frame_def)
next
  case (not_ready trafo)
  show ?thesis
    by (simp add: plan_not_ready [OF idle not_ready(1) refl refl not_ready(2,3,4)]
          stamped_frames_def stamped_frame_def)
next
  case (activates trafo)
  show ?thesis
    by (simp add: plan_activates [OF idle activates(1) refl refl activates(2,3,4)]
          stamped_frames_def stamped_frame_def)
qed

lemma stamped_frames_append: "stamped_frames (cs @ ds) = stamped_frames cs @ stamped_frames ds"
  by (simp add: stamped_frames_def List.map_filter_def)

lemma updateGoal_frames:
  "gmap_frame_id (updateGoal e g s) = gmap_frame_id s \<and>
   (\<forall>f \<in> set (stamped_frames (new_calls s (updateGoal e g s))). f = gmap_frame_id s)"
proof (cases rule: updateGoal_outcomes [where e = e and s = s and goal = g])
  case (dropped what)
  show ?thesis
    by (simp add: dropped(3) new_calls_def stamped_frames_def stamped_frame_def)
next
  case (converted goal_map)
  let ?s1 = "s\<lparr>active := False, trace := trace s @
         [RosInfo ''Got a new goal'', RosInfo ''Deactivating path planner.'', AcCancelAllGoals,
          PathPublish \<lparr>pm_frame_id = gmap_frame_id s, pm_stamp = now e, pm_poses = []\<rparr>,
          TfTransformPose (gmap_frame_id s) g (Some goal_map)]\<rparr>"
  have "\<not> active ?s1" by simp
  from plan_frames [OF this, of e goal_map] obtain cs where
    cs: "trace (updateGoal_plan e goal_map ?s1) = trace ?s1 @ cs"
      "gmap_frame_id (updateGoal_plan e goal_map ?s1) = gmap_frame_id ?s1"
      "\<forall>f \<in> set (stamped_frames cs). f = gmap_frame_id ?s1"
    by blast
  from cs(3) show ?thesis
    by (simp add: converted(3) cs(1,2) new_calls_def stamped_frames_append)
       (simp add: stamped_frames_def stamped_frame_def)
next
  case same_frame
  let ?s1 = "s\<lparr>active := False, trace := trace s @
         [RosInfo ''Got a new goal'', RosInfo ''Deactivating path planner.'', AcCancelAllGoals,
          PathPublish \<lparr>pm_frame_id = gmap_frame_id s, pm_stamp = now e, pm_poses = []\<rparr>]\<rparr>"
  have "\<not> active ?s1" by simp
  from plan_frames [OF this, of e g] obtain cs where
    cs: "trace (updateGoal_plan e g ?s1) = trace ?s1 @ cs"
      "gmap_frame_id (updateGoal_plan e g ?s1) = gmap_frame_id ?s1"
      "\<forall>f \<in> set (stamped_frames cs). f = gmap_frame_id ?s1"
    by blast
  from cs(3) show ?thesis
    by (simp add: same_frame(2) cs(1,2) new_calls_def stamped_frames_append)
       (simp add: stamped_frames_def stamped_frame_def)
qed

lemma updateGoal_cancels: "list_ex is_cancel (new_calls s (updateGoal e g s))"
proof -
  from updateGoal_atomic [of e g s] have "exec_held (trace (updateGoal e g s)) \<le> 1"
    by (auto simp add: Let_def)
  show ?thesis
  proof (cases rule: updateGoal_outcomes [where e = e and s = s and goal = g])
    case (dropped what)
    show ?thesis by (simp add: dropped(3) new_calls_def is_cancel_def)
  next
    case (converted goal_map)
    let ?s1 = "s\<lparr>active := False, trace := trace s @
         [RosInfo ''Got a new goal'', RosInfo ''Deactivating path planner.'', AcCancelAllGoals,
          PathPublish \<lparr>pm_frame_id = gmap_frame_id s, pm_stamp = now e, pm_poses = []\<rparr>,
          TfTransformPose (gmap_frame_id s) g (Some goal_map)]\<rparr>"
    have "\<not> active ?s1" by simp
    from plan_frames [OF this, of e goal_map] obtain cs where
      cs: "trace (updateGoal_plan e goal_map ?s1) = trace ?s1 @ cs" by blast
    show ?thesis
      by (simp add: converted(3) cs new_calls_def is_cancel_def)
  next
    case same_frame
    let ?s1 = "s\<lparr>active := False, trace := trace s @
         [RosInfo ''Got a new goal'', RosInfo ''Deactivating path planner.'', AcCancelAllGoals,
          PathPublish \<lparr>pm_frame_id = gmap_frame_id s, pm_stamp = now e, pm_poses = []\<rparr>]\<rparr>"
    have "\<not> active ?s1" by simp
    from plan_frames [OF this, of e g] obtain cs where
      cs: "trace (updateGoal_plan e g ?s1) = trace ?s1 @ cs" by blast
    show ?thesis
      by (simp add: same_frame(2) cs new_calls_def is_cancel_def)
  qed
qed

lemma updateGoal_sends:
  "active (updateGoal e g s) \<Longrightarrow> list_ex is_send (new_calls s (updateGoal e g s))"
proof -
  assume a: "active (updateGoal e g s)"
  with updateGoal_atomic [of e g s]
  have "length (filter is_send (new_calls s (updateGoal e g s))) = 1"
    by (auto simp add: Let_def)
  then have "filter is_send (new_calls s (updateGoal e g s)) \<noteq> []"
    by auto
  then show ?thesis
    by (simp add: list_ex_iff filter_empty_conv)
qed

lemma init_held:
  "exec_held (trace (CombinedPlannerNode t0 p_map p_goal p_path)) =
     (if active (CombinedPlannerNode t0 p_map p_goal p_path) then 1 else 0)"
  by (simp add: CombinedPlannerNode_def exec_held_def)

text \<open>A goal request in the frame of the map for which every step succeeds.\<close>

lemma updateGoal_success:
  assumes "ps_frame_id goal = gmap_frame_id s"
    and "tf_lookupTransform e (gmap_frame_id s) ''/base_link'' = Inr trafo"
    and "pathStart = \<lparr>px = tr_x trafo, py = tr_y trafo, ptheta = tf_getYaw e (tr_rotation trafo)\<rparr>"
    and "pathEnd = \<lparr>px = ps_x goal, py = ps_y goal, ptheta = tf_getYaw e (ps_orientation goal)\<rparr>"
    and "pl_setGoal e pathStart pathEnd = None" and "pl_hasValidPath e"
    and "ac_waitForServer e 1.0"
  shows "updateGoal e goal s = s\<lparr>active := True, lmap_cpy := lmap_getCostmapCopy e, trace := trace s @
     [RosInfo ''Got a new goal'', RosInfo ''Deactivating path planner.'', AcCancelAllGoals,
      PathPublish \<lparr>pm_frame_id = gmap_frame_id s, pm_stamp = now e, pm_poses = []\<rparr>,
      TfLookupTransform (gmap_frame_id s) ''/base_link'' (Some trafo),
      PlSetGlobalMap (gmap_cpy s), LmClearRobotFootprint,
      LmGetCostmapCopy (lmap_getCostmapCopy e), PlSetLocalMap (lmap_getCostmapCopy e),
      PlSetGoal pathStart pathEnd None,
      PlHasValidPath True,
      AcWaitForServer 1.0 True, PlGetLocalPath (pl_getLocalPath e),
      AcSendGoal \<lparr>mg_mode = MOTION_FOLLOW_PATH, mg_path_topic = path_topic s,
                mg_path_poses = plannerPathToRos e (pl_getLocalPath e), mg_v = 0.7,
                mg_pos_tolerance = 0.20\<rparr>,
      PlGetGlobalPath (pl_getGlobalPath e),
      VisuPublish \<lparr>mk_frame_id = gmap_frame_id s, mk_stamp = now e, mk_type = LINE_STRIP,
        mk_ns = ''global_path'', mk_id = 1, mk_color = (0, 0, 1, 0.75), mk_scale = (float_0_1, float_0_1),
        mk_points = map (\<lambda>it. (ptx it, pty it, 0)) (pl_getGlobalPath e)\<rparr>,
      PlGetGlobalWaypoints (pl_getGlobalWaypoints e),
      VisuPublish \<lparr>mk_frame_id = gmap_frame_id s, mk_stamp = now e, mk_type = LINE_LIST,
        mk_ns = ''waypoints'', mk_id = 3, mk_color = (0, 1, 0, 1), mk_scale = (float_0_1, 0),
        mk_points = concat (map (\<lambda>it. [(px it, py it, 0),
                       (px it + 0.8 * cos (ptheta it), py it + 0.8 * sin (ptheta it), 0)])
                       (pl_getGlobalWaypoints e))\<rparr>,
      RosInfo ''Goal updated.'']\<rparr>"
proof -
  let ?s1 = "s\<lparr>active := False, trace := trace s @
         [RosInfo ''Got a new goal'', RosInfo ''Deactivating path planner.'', AcCancelAllGoals,
          PathPublish \<lparr>pm_frame_id = gmap_frame_id s, pm_stamp = now e, pm_poses = []\<rparr>]\<rparr>"
  have ug: "updateGoal e goal s = updateGoal_plan e goal ?s1"
    using assms(1) by (simp add: updateGoal_def deactivate_eq emit_def Let_def)
  have idle: "\<not> active ?s1" by simp
  have look: "tf_lookupTransform e (gmap_frame_id ?s1) ''/base_link'' = Inr trafo"
    using assms(2) by simp
  show ?thesis
    unfolding ug plan_activates [OF idle look assms(3,4,5,6,7)] by simp
qed

text \<open>The example node after a map and a goal: it follows a path.\<close>

lemma env_ok_lookup:
  "tf_lookupTransform env_ok f ''/base_link'' = Inr \<lparr>tr_x = 0, tr_y = 0, tr_rotation = (0, 0, 0, 1)\<rparr>"
  by (simp add: env_ok_def)

lemma node_active_facts:
  "active node_active" "gmap_frame_id node_active = ''/map''" "replan_timer node_active = 0"
  "exec_held (trace node_active) = 1"
proof -
  let ?s = "updateMap map0 node0"
  have na: "node_active = updateGoal env_ok goal0 ?s"
    by (simp add: node_active_def run_def)
  have fr: "ps_frame_id goal0 = gmap_frame_id ?s"
    by (simp add: goal0_def updateMap_def)
  have eq: "node_active = ?s\<lparr>active := True, lmap_cpy := lmap_getCostmapCopy env_ok, trace := trace ?s @
     [RosInfo ''Got a new goal'', RosInfo ''Deactivating path planner.'', AcCancelAllGoals,
      PathPublish \<lparr>pm_frame_id = gmap_frame_id ?s, pm_stamp = now env_ok, pm_poses = []\<rparr>,
      TfLookupTransform (gmap_frame_id ?s) ''/base_link'' (Some \<lparr>tr_x = 0, tr_y = 0, tr_rotation = (0, 0, 0, 1)\<rparr>),
      PlSetGlobalMap (gmap_cpy ?s), LmClearRobotFootprint,
      LmGetCostmapCopy (lmap_getCostmapCopy env_ok), PlSetLocalMap (lmap_getCostmapCopy env_ok),
      PlSetGoal pose0 \<lparr>px = 2, py = 3, ptheta = 0\<rparr> None,
      PlHasValidPath True,
      AcWaitForServer 1.0 True, PlGetLocalPath (pl_getLocalPath env_ok),
      AcSendGoal \<lparr>mg_mode = MOTION_FOLLOW_PATH, mg_path_topic = path_topic ?s,
                mg_path_poses = plannerPathToRos env_ok (pl_getLocalPath env_ok), mg_v = 0.7,
                mg_pos_tolerance = 0.20\<rparr>,
      PlGetGlobalPath (pl_getGlobalPath env_ok),
      VisuPublish \<lparr>mk_frame_id = gmap_frame_id ?s, mk_stamp = now env_ok, mk_type = LINE_STRIP,
        mk_ns = ''global_path'', mk_id = 1, mk_color = (0, 0, 1, 0.75), mk_scale = (float_0_1, float_0_1),
        mk_points = map (\<lambda>it. (ptx it, pty it, 0)) (pl_getGlobalPath env_ok)\<rparr>,
      PlGetGlobalWaypoints (pl_getGlobalWaypoints env_ok),
      VisuPublish \<lparr>mk_frame_id = gmap_frame_id ?s, mk_stamp = now env_ok, mk_type = LINE_LIST,
        mk_ns = ''waypoints'', mk_id = 3, mk_color = (0, 1, 0, 1), mk_scale = (float_0_1, 0),
        mk_points = concat (map (\<lambda>it. [(px it, py it, 0),
                       (px it + 0.8 * cos (ptheta it), py it + 0.8 * sin (ptheta it), 0)])
                       (pl_getGlobalWaypoints env_ok))\<rparr>,
      RosInfo ''Goal updated.'']\<rparr>"
    unfolding na
    by (rule updateGoal_success [OF fr env_ok_lookup])
       (simp_all add: env_ok_def goal0_def pose0_def)
  show "active node_active" by (simp add: eq)
  show "gmap_frame_id node_active = ''/map''" by (simp add: eq updateMap_def)
  show "replan_timer node_active = 0"
    by (simp add: eq updateMap_def node0_def CombinedPlannerNode_def)
  show "exec_held (trace node_active) = 1"
    by (simp add: eq updateMap_def node0_def CombinedPlannerNode_def exec_held_def exec_step_def)
qed

lemma node_active_pose: "robot_pose e' node_active = (case tf_lookupTransform e' ''/map'' ''/base_link'' of
     Inl what \<Rightarrow> None
   | Inr trafo \<Rightarrow> Some \<lparr>px = tr_x trafo, py = tr_y trafo, ptheta = tf_getYaw e' (tr_rotation trafo)\<rparr>)"
  by (simp add: robot_pose_def getRobotPose_def node_active_facts split: sum.splits)

lemma run_ticks_idle: "\<not> active s \<Longrightarrow> run (map Tick es) s = s"
  unfolding run_def by (induction es) (simp_all add: update_idle)

lemma steady_update:
  assumes act: "active s" and st: "steady_tick e s"
  shows "\<exists>cs. trace (update e s) = trace s @ cs \<and> filter is_path_push cs = [] \<and>
     active (update e s) \<and> gmap_frame_id (update e s) = gmap_frame_id s"
proof -
  from st obtain p where pose: "robot_pose e s = Some p" and
    c: "\<not> pl_isGoalReached e p" "pl_update e p False = None" "pl_hasValidPath e"
       "\<not> pl_hasNewLocalPath e"
    by (auto simp add: steady_tick_def split: option.splits)
  from robot_pose_Some [OF pose] obtain trafo where
    look: "tf_lookupTransform e (gmap_frame_id s) ''/base_link'' = Inr trafo" and
    p: "p = \<lparr>px = tr_x trafo, py = tr_y trafo, ptheta = tf_getYaw e (tr_rotation trafo)\<rparr>"
    by blast
  show ?thesis
    using act by (simp add: update_no_new_path [OF act look p c] is_path_push_def)
qed

lemma steady_tick_frame:
  "gmap_frame_id s' = gmap_frame_id s \<Longrightarrow> steady_tick e s' = steady_tick e s"
  using robot_pose_frame [of s' s e] by (simp add: steady_tick_def)

lemma steady_run:
  "active s \<Longrightarrow> \<forall>e \<in> set es. steady_tick e s \<Longrightarrow>
   \<exists>cs. trace (run (map Tick es) s) = trace s @ cs \<and> filter is_path_push cs = [] \<and>
     active (run (map Tick es) s) \<and> gmap_frame_id (run (map Tick es) s) = gmap_frame_id s"
proof (induction es arbitrary: s)
  case Nil
  then show ?case by (simp add: run_def)
next
  case (Cons e es)
  from Cons.prems have st: "steady_tick e s" by simp
  from steady_update [OF Cons.prems(1) st] obtain c1 where
    c1: "trace (update e s) = trace s @ c1" "filter is_path_push c1 = []"
      "active (update e s)" "gmap_frame_id (update e s) = gmap_frame_id s"
    by blast
  from Cons.prems(2) have "\<forall>e' \<in> set es. steady_tick e' (update e s)"
    by (simp add: steady_tick_frame [OF c1(4)])
  from Cons.IH [OF c1(3) this] obtain c2 where
    c2: "trace (run (map Tick es) (update e s)) = trace (update e s) @ c2"
      "filter is_path_push c2 = []" "active (run (map Tick es) (update e s))"
      "gmap_frame_id (run (map Tick es) (update e s)) = gmap_frame_id (update e s)"
    by blast
  have r: "run (map Tick (e # es)) s = run (map Tick es) (update e s)"
    by (simp add: run_def)
  show ?case
    unfolding r using c1 c2 by simp
qed

lemma node0_facts:
  "\<not> active node0" "gmap_frame_id node0 = []" "trace node0 = []" "\<not> got_map node0"
  by (simp_all add: node0_def CombinedPlannerNode_def)

lemma update_hints:
  "set (replan_hints (new_calls s (update e s))) \<subseteq> {False}"
proof (cases "active s")
  case False
  then show ?thesis by (simp add: update_idle new_calls_def replan_hints_def)
next
  case act: True
  show ?thesis
  proof (cases rule: tick_outcomes [of e s])
    case (pose_fails what)
    show ?thesis
      by (simp add: update_pose_fails [OF act pose_fails] new_calls_def replan_hints_def
            update_hint_def)
  next
    case (reached trafo)
    show ?thesis
      by (simp add: update_goal_reached [OF act reached(1) refl reached(2)] new_calls_def
            replan_hints_def update_hint_def)
  next
    case (plan_error trafo what)
    show ?thesis
      by (simp add: update_planning_error [OF act plan_error(1) refl plan_error(2,3)]
            new_calls_def replan_hints_def update_hint_def)
  next
    case (no_valid_path trafo)
    show ?thesis
      by (simp add: update_no_valid_path [OF act no_valid_path(1) refl no_valid_path(2,3,4)]
            new_calls_def replan_hints_def update_hint_def)
  next
    case (no_new_path trafo)
    show ?thesis
      by (simp add: update_no_new_path [OF act no_new_path(1) refl no_new_path(2,3,4,5)]
            new_calls_def replan_hints_def update_hint_def)
  next
    case (new_path trafo)
    show ?thesis
      by (simp add: update_new_path [OF act new_path(1) refl new_path(2,3,4,5)]
            new_calls_def replan_hints_def update_hint_def)
  qed
qed

lemma update_replans:
  assumes act: "active s" and pose: "robot_pose e s = Some p" and nr: "\<not> pl_isGoalReached e p"
  shows "replan_hints (new_calls s (update e s)) = [False] \<and>
     PlUpdate p False (pl_update e p False) \<in> set (new_calls s (update e s))"
proof -
  from robot_pose_Some [OF pose] obtain trafo where
    look: "tf_lookupTransform e (gmap_frame_id s) ''/base_link'' = Inr trafo" and
    p: "p = \<lparr>px = tr_x trafo, py = tr_y trafo, ptheta = tf_getYaw e (tr_rotation trafo)\<rparr>"
    by blast
  show ?thesis
  proof (cases "pl_update e p False")
    case (Some what)
    show ?thesis
      by (simp add: Some update_planning_error [OF act look p nr Some] new_calls_def
            replan_hints_def update_hint_def)
  next
    case None
    show ?thesis
    proof (cases "pl_hasValidPath e")
      case False
      show ?thesis
        by (simp add: None update_no_valid_path [OF act look p nr None False] new_calls_def
              replan_hints_def update_hint_def)
    next
      case v: True
      show ?thesis
      proof (cases "pl_hasNewLocalPath e")
        case False
        show ?thesis
          by (simp add: None update_no_new_path [OF act look p nr None v False] new_calls_def
                replan_hints_def update_hint_def)
      next
        case True
        show ?thesis
          by (simp add: None update_new_path [OF act look p nr None v True] new_calls_def
                replan_hints_def update_hint_def)
      qed
    qed
  qed
qed

text \<open>No callback reads \<^verbatim>\<open>got_map_\<close>: setting the flag commutes with each of them.\<close>

lemma update_got_map: "update e (s\<lparr>got_map := b\<rparr>) = (update e s)\<lparr>got_map := b\<rparr>"
  by (simp add: update_def getRobotPose_def deactivate_def publishEmptyLocalPath_def
        publishLocalPath_def visualizeWaypoints_def emit_def Let_def
        split: sum.splits option.splits)

lemma plan_got_map:
  "updateGoal_plan e g (s\<lparr>got_map := b\<rparr>) = (updateGoal_plan e g s)\<lparr>got_map := b\<rparr>"
  by (simp add: updateGoal_plan_def getRobotPose_def activate_def deactivate_def
        publishEmptyLocalPath_def visualizePath_def visualizeWaypoints_def emit_def Let_def
        split: sum.splits option.splits)

lemma updateGoal_got_map:
  "updateGoal e g (s\<lparr>got_map := b\<rparr>) = (updateGoal e g s)\<lparr>got_map := b\<rparr>"
proof -
  have d: "deactivate e (emit (RosInfo ''Got a new goal'') (s\<lparr>got_map := b\<rparr>)) =
      (deactivate e (emit (RosInfo ''Got a new goal'') s))\<lparr>got_map := b\<rparr>"
    by (simp add: deactivate_eq emit_def)
  have em: "emit c (s'\<lparr>got_map := b\<rparr>) = (emit c s')\<lparr>got_map := b\<rparr>" for c s'
    by (simp add: emit_def)
  show ?thesis
    unfolding updateGoal_def d Let_def
    by (simp add: em plan_got_map split: sum.splits)
qed

lemma plan_no_transform:
  assumes idle: "\<not> active s"
  shows "\<exists>cs. trace (updateGoal_plan e g s) = trace s @ cs \<and>
     got_map (updateGoal_plan e g s) = got_map s \<and> \<not> list_ex is_transformPose cs"
proof (cases rule: plan_outcomes [where e = e and s = s and g = g])
  case (pose_fails what)
  show ?thesis
    by (simp add: plan_pose_fails [OF pose_fails] is_transformPose_def)
next
  case (setGoal_fails trafo what)
  show ?thesis
    by (simp add: plan_setGoal_fails [OF setGoal_fails(1) refl refl setGoal_fails(2)]
          is_transformPose_def)
next
  case (no_path trafo)
  show ?thesis
    by (simp add: plan_no_path [OF no_path(1) refl refl no_path(2,3)] is_transformPose_def)
next
  case (not_ready trafo)
  show ?thesis
    by (simp add: plan_not_ready [OF idle not_ready(1) refl refl not_ready(2,3,4)]
          is_transformPose_def)
next
  case (activates trafo)
  show ?thesis
    by (simp add: plan_activates [OF idle activates(1) refl refl activates(2,3,4)]
          is_transformPose_def)
qed

lemma updateGoal_transforms:
  "got_map (updateGoal e g s) = got_map s \<and>
   (list_ex is_transformPose (new_calls s (updateGoal e g s)) \<longleftrightarrow>
      ps_frame_id g \<noteq> gmap_frame_id s) \<and>
   (ps_frame_id g \<noteq> gmap_frame_id s \<longrightarrow>
      (\<exists>r. TfTransformPose (gmap_frame_id s) g r \<in> set (new_calls s (updateGoal e g s))))"
proof (cases rule: updateGoal_outcomes [where e = e and s = s and goal = g])
  case (dropped what)
  show ?thesis
    using dropped(1) by (simp add: dropped(3) new_calls_def is_transformPose_def)
next
  case (converted goal_map)
  let ?s1 = "s\<lparr>active := False, trace := trace s @
         [RosInfo ''Got a new goal'', RosInfo ''Deactivating path planner.'', AcCancelAllGoals,
          PathPublish \<lparr>pm_frame_id = gmap_frame_id s, pm_stamp = now e, pm_poses = []\<rparr>,
          TfTransformPose (gmap_frame_id s) g (Some goal_map)]\<rparr>"
  have "\<not> active ?s1" by simp
  from plan_no_transform [OF this, of e goal_map] obtain cs where
    cs: "trace (updateGoal_plan e goal_map ?s1) = trace ?s1 @ cs"
      "got_map (updateGoal_plan e goal_map ?s1) = got_map ?s1"
    by blast
  show ?thesis
    using converted(1)
    by (auto simp add: converted(3) cs new_calls_def is_transformPose_def)
next
  case same_frame
  let ?s1 = "s\<lparr>active := False, trace := trace s @
         [RosInfo ''Got a new goal'', RosInfo ''Deactivating path planner.'', AcCancelAllGoals,
          PathPublish \<lparr>pm_frame_id = gmap_frame_id s, pm_stamp = now e, pm_poses = []\<rparr>]\<rparr>"
  have "\<not> active ?s1" by simp
  from plan_no_transform [OF this, of e g] obtain cs where
    cs: "trace (updateGoal_plan e g ?s1) = trace ?s1 @ cs"
      "got_map (updateGoal_plan e g ?s1) = got_map ?s1"
      "\<not> list_ex is_transformPose cs"
    by blast
  show ?thesis
    using same_frame(1) cs(3)
    by (simp add: same_frame(2) cs(1,2) new_calls_def is_transformPose_def)
qed

lemma update_frames:
  "gmap_frame_id (update e s) = gmap_frame_id s \<and>
   trace (update e s) = trace s @ new_calls s (update e s) \<and>
   (\<forall>f \<in> set (stamped_frames (new_calls s (update e s))). f = gmap_frame_id s)"
proof (cases "active s")
  case False
  then show ?thesis by (simp add: update_idle new_calls_def stamped_frames_def)
next
  case act: True
  show ?thesis
  proof (cases rule: tick_outcomes [of e s])
    case (pose_fails what)
    show ?thesis
      by (simp add: update_pose_fails [OF act pose_fails] new_calls_def stamped_frames_def
            stamped_frame_def)
  next
    case (reached trafo)
    show ?thesis
      by (simp add: update_goal_reached [OF act reached(1) refl reached(2)] new_calls_def
            stamped_frames_def stamped_frame_def)
  next
    case (plan_error trafo what)
    show ?thesis
      by (simp add: update_planning_error [OF act plan_error(1) refl plan_error(2,3)]
            new_calls_def stamped_frames_def stamped_frame_def)
  next
    case (no_valid_path trafo)
    show ?thesis
      by (simp add: update_no_valid_path [OF act no_valid_path(1) refl no_valid_path(2,3,4)]
            new_calls_def stamped_frames_def stamped_frame_def)
  next
    case (no_new_path trafo)
    show ?thesis
      by (simp add: update_no_new_path [OF act no_new_path(1) refl no_new_path(2,3,4,5)]
            new_calls_def stamped_frames_def stamped_frame_def)
  next
    case (new_path trafo)
    show ?thesis
      by (simp add: update_new_path [OF act new_path(1) refl new_path(2,3,4,5)]
            new_calls_def stamped_frames_def stamped_frame_def)
  qed
qed

lemma updateGoal_extends:
  "trace (updateGoal e g s) = trace s @ new_calls s (updateGoal e g s)"
proof (cases rule: updateGoal_outcomes [where e = e and s = s and goal = g])
  case (dropped what)
  show ?thesis by (simp add: dropped(3) new_calls_def)
next
  case (converted goal_map)
  let ?s1 = "s\<lparr>active := False, trace := trace s @
         [RosInfo ''Got a new goal'', RosInfo ''Deactivating path planner.'', AcCancelAllGoals,
          PathPublish \<lparr>pm_frame_id = gmap_frame_id s, pm_stamp = now e, pm_poses = []\<rparr>,
          TfTransformPose (gmap_frame_id s) g (Some goal_map)]\<rparr>"
  have "\<not> active ?s1" by simp
  from plan_frames [OF this, of e goal_map] obtain cs where
    cs: "trace (updateGoal_plan e goal_map ?s1) = trace ?s1 @ cs" by blast
  show ?thesis by (simp add: converted(3) cs new_calls_def)
next
  case same_frame
  let ?s1 = "s\<lparr>active := False, trace := trace s @
         [RosInfo ''Got a new goal'', RosInfo ''Deactivating path planner.'', AcCancelAllGoals,
          PathPublish \<lparr>pm_frame_id = gmap_frame_id s, pm_stamp = now e, pm_poses = []\<rparr>]\<rparr>"
  have "\<not> active ?s1" by simp
  from plan_frames [OF this, of e g] obtain cs where
    cs: "trace (updateGoal_plan e g ?s1) = trace ?s1 @ cs" by blast
  show ?thesis by (simp add: same_frame(2) cs new_calls_def)
qed

lemma step_frames:
  "gmap_frame_id (step ev s) = (if is_map_update ev then ''/map'' else gmap_frame_id s) \<and>
   trace (step ev s) = trace s @ new_calls s (step ev s) \<and>
   (\<forall>f \<in> set (stamped_frames (new_calls s (step ev s))). f = gmap_frame_id s)"
proof (cases ev)
  case (MapUpdate m)
  then show ?thesis
    by (simp add: updateMap_def is_map_update_def new_calls_def stamped_frames_def)
next
  case (GoalRequest e g)
  with updateGoal_frames [of e g s] updateGoal_extends [of e g s] show ?thesis
    by (simp add: is_map_update_def)
next
  case (Tick e)
  with update_frames [of e s] show ?thesis
    by (simp add: is_map_update_def)
qed

lemma run_frames:
  "gmap_frame_id (run evs s) = (if list_ex is_map_update evs then ''/map'' else gmap_frame_id s) \<and>
   (\<forall>f \<in> set (stamped_frames (new_calls s (run evs s))). f = gmap_frame_id s \<or> f = ''/map'') \<and>
   trace (run evs s) = trace s @ new_calls s (run evs s)"
proof (induction evs arbitrary: s)
  case Nil
  show ?case by (simp add: run_def new_calls_def stamped_frames_def)
next
  case (Cons ev evs)
  let ?s1 = "step ev s"
  have r: "run (ev # evs) s = run evs ?s1"
    by (simp add: run_def)
  from step_frames [of ev s] have
    f1: "gmap_frame_id ?s1 = (if is_map_update ev then ''/map'' else gmap_frame_id s)" and
    t1: "trace ?s1 = trace s @ new_calls s ?s1" and
    a1: "\<forall>f \<in> set (stamped_frames (new_calls s ?s1)). f = gmap_frame_id s"
    by blast+
  from Cons.IH [of ?s1] have
    f2: "gmap_frame_id (run evs ?s1) =
      (if list_ex is_map_update evs then ''/map'' else gmap_frame_id ?s1)" and
    a2: "\<forall>f \<in> set (stamped_frames (new_calls ?s1 (run evs ?s1))).
      f = gmap_frame_id ?s1 \<or> f = ''/map''" and
    t2: "trace (run evs ?s1) = trace ?s1 @ new_calls ?s1 (run evs ?s1)"
    by blast+
  have tr: "trace (run evs ?s1) = trace s @ new_calls s ?s1 @ new_calls ?s1 (run evs ?s1)"
    using t1 t2 by simp
  then have nc: "new_calls s (run evs ?s1) = new_calls s ?s1 @ new_calls ?s1 (run evs ?s1)"
    by (rule new_calls_ext)
  have frame: "gmap_frame_id (run (ev # evs) s) =
      (if list_ex is_map_update (ev # evs) then ''/map'' else gmap_frame_id s)"
    unfolding r f2 f1 by simp
  have stamps: "\<forall>f \<in> set (stamped_frames (new_calls s (run (ev # evs) s))).
      f = gmap_frame_id s \<or> f = ''/map''"
    unfolding r nc stamped_frames_append using a1 a2 f1 by (auto split: if_splits)
  have ext: "trace (run (ev # evs) s) = trace s @ new_calls s (run (ev # evs) s)"
    unfolding r nc using tr by simp
  from frame stamps ext show ?case by blast
qed

text \<open>
  The rest of a goal request on an idle node, step by step: the pose lookup in the stored
  frame always runs; if it succeeds the stored map and the goal are given to the planner;
  the action server is waited for exactly when the planner has a valid path; and the node
  ends active, with one goal sent, exactly when the server was ready as well.
\<close>

lemma plan_sequence:
  assumes idle: "\<not> active s"
  shows "\<exists>cs. trace (updateGoal_plan e gm s) = trace s @ cs \<and>
     \<not> list_ex is_transformPose cs \<and>
     (case tf_lookupTransform e (gmap_frame_id s) ''/base_link'' of
        Inl what \<Rightarrow>
          TfLookupTransform (gmap_frame_id s) ''/base_link'' None \<in> set cs \<and>
          \<not> list_ex is_planner_call cs \<and> \<not> active (updateGoal_plan e gm s) \<and>
          length (filter is_send cs) = 0
      | Inr trafo \<Rightarrow>
          let pathStart = \<lparr>px = tr_x trafo, py = tr_y trafo,
                ptheta = tf_getYaw e (tr_rotation trafo)\<rparr>;
              pathEnd = \<lparr>px = ps_x gm, py = ps_y gm, ptheta = tf_getYaw e (ps_orientation gm)\<rparr>;
              planned = (pl_setGoal e pathStart pathEnd = None \<and> pl_hasValidPath e)
          in TfLookupTransform (gmap_frame_id s) ''/base_link'' (Some trafo) \<in> set cs \<and>
             PlSetGlobalMap (gmap_cpy s) \<in> set cs \<and>
             PlSetGoal pathStart pathEnd (pl_setGoal e pathStart pathEnd) \<in> set cs \<and>
             (AcWaitForServer 1.0 (ac_waitForServer e 1.0) \<in> set cs \<longleftrightarrow> planned) \<and>
             (active (updateGoal_plan e gm s) \<longleftrightarrow> planned \<and> ac_waitForServer e 1.0) \<and>
             length (filter is_send cs) = (if planned \<and> ac_waitForServer e 1.0 then 1 else 0))"
proof (cases rule: plan_outcomes [where e = e and s = s and g = gm])
  case (pose_fails what)
  show ?thesis
    using idle pose_fails
    by (simp add: plan_pose_fails [OF pose_fails] is_transformPose_def
          is_planner_call_def is_send_def)
next
  case (setGoal_fails trafo what)
  show ?thesis
    using idle setGoal_fails
    by (simp add: Let_def
          plan_setGoal_fails [OF setGoal_fails(1) refl refl setGoal_fails(2)]
          is_transformPose_def is_send_def)
next
  case (no_path trafo)
  show ?thesis
    using idle no_path
    by (simp add: Let_def plan_no_path [OF no_path(1) refl refl no_path(2,3)]
          is_transformPose_def is_send_def)
next
  case (not_ready trafo)
  show ?thesis
    using idle not_ready
    by (simp add: Let_def
          plan_not_ready [OF idle not_ready(1) refl refl not_ready(2,3,4)]
          is_transformPose_def is_send_def)
next
  case (activates trafo)
  show ?thesis
    using idle activates
    by (simp add: Let_def
          plan_activates [OF idle activates(1) refl refl activates(2,3,4)]
          is_transformPose_def is_send_def)
qed

section \<open>The claims\<close>

text \<open>
  C1. Goal activation is atomic. After a goal request, either \<^verbatim>\<open>setGoal\<close> returned
  normally, the planner reported a valid path and the action server was ready within the
  wait of 1.0 s, and then the node is active, has sent exactly one goal with
  \<^verbatim>\<open>sendGoal\<close> and the motion control holds exactly that one; or one of the three did
  not happen, and then the node is idle, has sent no goal and the motion control holds none.
  The request starts by deactivating, so the state the activation starts from is idle.
\<close>

theorem C1_goal_activation_atomic:
  "let s' = updateGoal e goal s; cs = new_calls s s' in
     (list_ex setGoal_succeeded cs \<and> PlHasValidPath True \<in> set cs \<and>
        AcWaitForServer 1.0 True \<in> set cs \<and>
        active s' \<and> length (filter is_send cs) = 1 \<and> exec_held (trace s') = 1)
     \<or> (\<not> (list_ex setGoal_succeeded cs \<and> PlHasValidPath True \<in> set cs \<and>
             AcWaitForServer 1.0 True \<in> set cs) \<and>
        \<not> active s' \<and> length (filter is_send cs) = 0 \<and> exec_held (trace s') = 0)"
  by (rule updateGoal_atomic)

theorem C1_goal_activation_atomic_witness:
  "active (updateGoal env_ok goal0 (updateMap map0 node0)) \<and>
   length (filter is_send (new_calls (updateMap map0 node0)
     (updateGoal env_ok goal0 (updateMap map0 node0)))) = 1 \<and>
   \<not> active (updateGoal env_no_tf goal0 (updateMap map0 node0)) \<and>
   length (filter is_send (new_calls (updateMap map0 node0)
     (updateGoal env_no_tf goal0 (updateMap map0 node0)))) = 0"
proof -
  have a: "active (updateGoal env_ok goal0 (updateMap map0 node0))"
    using node_active_facts(1) by (simp add: node_active_def run_def)
  have "tf_lookupTransform env_no_tf (gmap_frame_id (updateMap map0 node0)) ''/base_link'' =
      Inl ''no transform''"
    by (simp add: env_no_tf_def)
  then have b: "\<not> list_ex setGoal_succeeded (new_calls (updateMap map0 node0)
     (updateGoal env_no_tf goal0 (updateMap map0 node0)))"
    by (simp add: updateGoal_def deactivate_eq emit_def Let_def goal0_def updateMap_def
          plan_pose_fails new_calls_def setGoal_succeeded_def)
  from a b show ?thesis
    using C1_goal_activation_atomic [of env_ok goal0 "updateMap map0 node0"]
      C1_goal_activation_atomic [of env_no_tf goal0 "updateMap map0 node0"]
    by (simp add: Let_def)
qed

text \<open>
  C2. In every state reached from the constructed node by map updates, goal requests and
  ticks, the node is active if and only if the motion control holds a goal that the node
  sent and has not cancelled; it then holds exactly one. Every step that makes the node
  active sends a goal, and every step that makes it idle calls \<^verbatim>\<open>cancelAllGoals\<close>.
\<close>

theorem C2_active_iff_command_held:
  "let s = run evs (CombinedPlannerNode t0 p_map p_goal p_path); s' = step ev s in
     exec_held (trace s) = (if active s then 1 else 0) \<and>
     (active s \<longleftrightarrow> 0 < exec_held (trace s)) \<and>
     (\<not> active s \<and> active s' \<longrightarrow> list_ex is_send (new_calls s s')) \<and>
     (active s \<and> \<not> active s' \<longrightarrow> list_ex is_cancel (new_calls s s'))"
proof -
  define s where "s = run evs (CombinedPlannerNode t0 p_map p_goal p_path)"
  have held: "exec_held (trace s) = (if active s then 1 else 0)"
    unfolding s_def by (rule run_held [OF init_held])
  have up: "\<not> active s \<and> active (step ev s) \<longrightarrow> list_ex is_send (new_calls s (step ev s))"
    by (cases ev) (auto simp add: updateMap_def updateGoal_sends update_idle)
  have down: "active s \<and> \<not> active (step ev s) \<longrightarrow> list_ex is_cancel (new_calls s (step ev s))"
    by (cases ev) (simp_all add: updateMap_def updateGoal_cancels update_deactivates_by_cancel)
  from held up down show ?thesis
    by (simp add: Let_def s_def [symmetric])
qed

theorem C2_active_iff_command_held_witness:
  "active node_active \<and> exec_held (trace node_active) = 1 \<and>
   \<not> active (step (Tick env_reached) node_active) \<and>
   list_ex is_cancel (new_calls node_active (step (Tick env_reached) node_active)) \<and>
   \<not> active node0 \<and> active (step (GoalRequest env_ok goal_noframe) node0) \<and>
   list_ex is_send (new_calls node0 (step (GoalRequest env_ok goal_noframe) node0))"
proof -
  have look: "tf_lookupTransform env_reached (gmap_frame_id node_active) ''/base_link'' =
      Inr \<lparr>tr_x = 0, tr_y = 0, tr_rotation = (0, 0, 0, 1)\<rparr>"
    by (simp add: env_reached_def env_ok_def)
  have r: "pl_isGoalReached env_reached \<lparr>px = tr_x \<lparr>tr_x = 0, tr_y = 0, tr_rotation = (0, 0, 0, 1)\<rparr>,
      py = tr_y \<lparr>tr_x = 0, tr_y = 0, tr_rotation = (0, 0, 0, 1)\<rparr>,
      ptheta = tf_getYaw env_reached (tr_rotation \<lparr>tr_x = 0, tr_y = 0, tr_rotation = (0, 0, 0, 1)\<rparr>)\<rparr>"
    by (simp add: env_reached_def)
  have down: "\<not> active (step (Tick env_reached) node_active)"
    by (simp add: update_goal_reached [OF node_active_facts(1) look refl r])
  have idle: "\<not> active node0"
    by (simp add: node0_def CombinedPlannerNode_def)
  have fr: "ps_frame_id goal_noframe = gmap_frame_id node0"
    by (simp add: goal_noframe_def node0_def CombinedPlannerNode_def)
  have ok: "pl_setGoal env_ok a b = None" "pl_hasValidPath env_ok" "ac_waitForServer env_ok 1.0"
    for a b
    by (simp_all add: env_ok_def)
  have up: "active (step (GoalRequest env_ok goal_noframe) node0)"
    by (simp add: updateGoal_success [OF fr env_ok_lookup refl refl ok])
  from down idle up show ?thesis
    using C2_active_iff_command_held [of "[MapUpdate map0, GoalRequest env_ok goal0]" 0 None None None
          "Tick env_reached"]
      C2_active_iff_command_held [of "[]" 0 None None None "GoalRequest env_ok goal_noframe"]
    by (simp add: Let_def node_active_def [symmetric] node0_def [symmetric] node_active_facts)
       (simp add: run_def)
qed

text \<open>
  C3. While the node is idle a tick does nothing: \<^verbatim>\<open>update\<close> returns the state it
  was given, with nothing added to the call log, so it calls neither the planner nor the
  action client. The same holds for any number of ticks in a row.
\<close>

theorem C3_idle_ticks_noop:
  "\<not> active s \<Longrightarrow>
   update e s = s \<and> new_calls s (update e s) = [] \<and>
   run (map Tick es) s = s \<and> new_calls s (run (map Tick es) s) = []"
  by (simp add: update_idle run_ticks_idle new_calls_def)

theorem C3_idle_ticks_noop_witness:
  "\<not> active node0 \<and> update env_ok node0 = node0 \<and>
   run (map Tick [env_ok, env_reached, env_plan_error]) node0 = node0 \<and>
   new_calls node0 (run (map Tick [env_ok, env_reached, env_plan_error]) node0) = []"
proof -
  have idle: "\<not> active node0"
    by (simp add: node0_def CombinedPlannerNode_def)
  from C3_idle_ticks_noop [OF idle, of env_ok "[env_ok, env_reached, env_plan_error]"]
  show ?thesis using idle by blast
qed

text \<open>
  C4. On a tick of an active node on which the pose lookup succeeds and
  \<^verbatim>\<open>isGoalReached\<close> answers true for that pose, \<^verbatim>\<open>planner_.update\<close> is not
  called: the only call to the planner is \<^verbatim>\<open>isGoalReached\<close>. After the lookup, that
  question and one log line the tick consists of the calls of \<^verbatim>\<open>deactivate\<close>, and
  the node is idle.
\<close>

theorem C4_goal_reached_before_replanning:
  "active s \<Longrightarrow> robot_pose e s = Some p \<Longrightarrow> pl_isGoalReached e p \<Longrightarrow>
   \<not> active (update e s) \<and>
   \<not> list_ex is_planner_update (new_calls s (update e s)) \<and>
   filter is_planner_call (new_calls s (update e s)) = [PlIsGoalReached p True] \<and>
   length (filter is_cancel (new_calls s (update e s))) = 1 \<and>
   drop 3 (new_calls s (update e s)) = new_calls s (deactivate e s)"
proof -
  assume act: "active s" and pose: "robot_pose e s = Some p" and reached: "pl_isGoalReached e p"
  from robot_pose_Some [OF pose] obtain trafo where
    look: "tf_lookupTransform e (gmap_frame_id s) ''/base_link'' = Inr trafo" and
    p: "p = \<lparr>px = tr_x trafo, py = tr_y trafo, ptheta = tf_getYaw e (tr_rotation trafo)\<rparr>"
    by blast
  show ?thesis
    by (simp add: update_goal_reached [OF act look p reached] deactivate_eq new_calls_def
          is_planner_update_def is_planner_call_def is_cancel_def)
qed

theorem C4_goal_reached_before_replanning_witness:
  "active node_active \<and> robot_pose env_reached node_active = Some pose0 \<and>
   pl_isGoalReached env_reached pose0 \<and>
   \<not> active (update env_reached node_active) \<and>
   \<not> list_ex is_planner_update (new_calls node_active (update env_reached node_active)) \<and>
   filter is_planner_call (new_calls node_active (update env_reached node_active)) =
     [PlIsGoalReached pose0 True]"
proof -
  have pose: "robot_pose env_reached node_active = Some pose0"
    by (simp add: node_active_pose env_reached_def env_ok_def pose0_def)
  have reached: "pl_isGoalReached env_reached pose0"
    by (simp add: env_reached_def)
  from C4_goal_reached_before_replanning [OF node_active_facts(1) pose reached]
  show ?thesis using pose reached node_active_facts(1) by simp
qed

text \<open>
  C5. On a tick of an active node on which the pose lookup fails, or on which
  \<^verbatim>\<open>planner_.update\<close> is called and throws, the node becomes idle,
  \<^verbatim>\<open>cancelAllGoals\<close> is called exactly once, the failure is followed by an error
  log line, and no call to the planner follows the failure.
\<close>

theorem C5_failure_deactivates:
  "active s \<Longrightarrow> robot_pose e s = None \<or> planner_update_throws e s \<Longrightarrow>
   \<not> active (update e s) \<and>
   length (filter is_cancel (new_calls s (update e s))) = 1 \<and>
   list_ex is_failure (new_calls s (update e s)) \<and>
   list_ex is_error_log (calls_after_failure (new_calls s (update e s))) \<and>
   \<not> list_ex is_planner_call (calls_after_failure (new_calls s (update e s)))"
proof -
  assume act: "active s" and fail: "robot_pose e s = None \<or> planner_update_throws e s"
  show ?thesis
  proof (cases "robot_pose e s")
    case None
    from robot_pose_None [OF None] obtain what where
      look: "tf_lookupTransform e (gmap_frame_id s) ''/base_link'' = Inl what"
      by blast
    show ?thesis
      by (simp add: update_pose_fails [OF act look] new_calls_def is_cancel_def is_failure_def
            is_error_log_def is_planner_call_def calls_after_failure_def)
  next
    case (Some p)
    from robot_pose_Some [OF Some] obtain trafo where
      look: "tf_lookupTransform e (gmap_frame_id s) ''/base_link'' = Inr trafo" and
      p: "p = \<lparr>px = tr_x trafo, py = tr_y trafo, ptheta = tf_getYaw e (tr_rotation trafo)\<rparr>"
      by blast
    from fail Some obtain what where
      nr: "\<not> pl_isGoalReached e p" and throws: "pl_update e p False = Some what"
      by (auto simp add: planner_update_throws_def)
    show ?thesis
      by (simp add: update_planning_error [OF act look p nr throws] new_calls_def is_cancel_def
            is_failure_def is_error_log_def is_planner_call_def calls_after_failure_def)
  qed
qed

theorem C5_failure_deactivates_witness:
  "active node_active \<and> robot_pose env_no_tf node_active = None \<and>
   planner_update_throws env_plan_error node_active \<and>
   \<not> active (update env_no_tf node_active) \<and>
   length (filter is_cancel (new_calls node_active (update env_no_tf node_active))) = 1 \<and>
   \<not> active (update env_plan_error node_active) \<and>
   length (filter is_cancel (new_calls node_active (update env_plan_error node_active))) = 1 \<and>
   \<not> list_ex is_planner_call
       (calls_after_failure (new_calls node_active (update env_plan_error node_active)))"
proof -
  have lost: "robot_pose env_no_tf node_active = None"
    by (simp add: node_active_pose env_no_tf_def)
  have throws: "planner_update_throws env_plan_error node_active"
    by (simp add: planner_update_throws_def node_active_pose env_plan_error_def env_ok_def)
  from C5_failure_deactivates [OF node_active_facts(1) disjI1 [OF lost]]
    C5_failure_deactivates [OF node_active_facts(1) disjI2 [OF throws]]
  show ?thesis using lost throws node_active_facts(1) by simp
qed

text \<open>
  C6. On a tick of an active node that reaches \<^verbatim>\<open>hasNewLocalPath\<close> with a valid
  path and is told that there is no new local path, nothing is handed to the motion
  control, neither on the path topic nor as a goal, and the node stays active. The same
  holds over any number of such ticks in a row.
\<close>

theorem C6_no_new_path_no_push:
  "active s \<Longrightarrow> \<forall>e \<in> set es. steady_tick e s \<Longrightarrow>
   active (run (map Tick es) s) \<and>
   filter is_path_push (new_calls s (run (map Tick es) s)) = [] \<and>
   (\<forall>e \<in> set es. active (update e s) \<and> filter is_path_push (new_calls s (update e s)) = [])"
proof -
  assume act: "active s" and st: "\<forall>e \<in> set es. steady_tick e s"
  from steady_run [OF act st] obtain cs where
    "trace (run (map Tick es) s) = trace s @ cs" "filter is_path_push cs = []"
    "active (run (map Tick es) s)"
    by blast
  then have many: "active (run (map Tick es) s) \<and>
      filter is_path_push (new_calls s (run (map Tick es) s)) = []"
    by (simp add: new_calls_def)
  have one: "active (update e s) \<and> filter is_path_push (new_calls s (update e s)) = []"
    if "e \<in> set es" for e
  proof -
    from that st have "steady_tick e s" by simp
    from steady_update [OF act this] show ?thesis
      by (auto simp add: new_calls_def)
  qed
  from many one show ?thesis by blast
qed

theorem C6_no_new_path_no_push_witness:
  "active node_active \<and> steady_tick env_ok node_active \<and>
   active (run (map Tick [env_ok, env_ok, env_ok, env_ok, env_ok]) node_active) \<and>
   filter is_path_push
     (new_calls node_active (run (map Tick [env_ok, env_ok, env_ok, env_ok, env_ok]) node_active)) = []"
proof -
  have st: "steady_tick env_ok node_active"
    by (simp add: steady_tick_def node_active_pose) (simp add: env_ok_def)
  then have all: "\<forall>e \<in> set [env_ok, env_ok, env_ok, env_ok, env_ok]. steady_tick e node_active"
    by simp
  from C6_no_new_path_no_push [OF node_active_facts(1) all]
  show ?thesis using st node_active_facts(1) by simp
qed

text \<open>
  C7, as stated, fails on a node that holds no goal: deactivating the freshly constructed
  node twice calls \<^verbatim>\<open>cancelAllGoals\<close> twice and neither call finds a goal to cancel,
  so neither the number of calls nor the number of calls with an effect is one.
\<close>

theorem C7_counterexample:
  "effective_cancels (exec_held (trace node0))
     (new_calls node0 (deactivate env_ok (deactivate env_ok node0))) \<noteq> 1 \<and>
   length (filter is_cancel (new_calls node0 (deactivate env_ok (deactivate env_ok node0)))) \<noteq> 1"
  by (simp add: deactivate_eq new_calls_def node0_facts exec_held_def exec_step_def is_cancel_def)

text \<open>
  C7, as amended. Two calls of \<^verbatim>\<open>deactivate\<close> in a row each log, call
  \<^verbatim>\<open>cancelAllGoals\<close> and publish an empty path stamped with the stored frame, in this
  order; the cancel is called while \<^verbatim>\<open>active_\<close> still has its old value, and only
  then is the flag cleared. The node is idle after the first call and the second changes
  nothing in the node but the call log. The second cancel never finds a goal to cancel;
  the first finds one exactly when the motion control held a goal before, so over both
  calls one cancel takes effect if a goal was held, and none otherwise.
\<close>

theorem C7_deactivate_idempotent:
  "let s1 = deactivate e s; s2 = deactivate e' s1 in
     new_calls s s1 = [RosInfo ''Deactivating path planner.'', AcCancelAllGoals,
        PathPublish \<lparr>pm_frame_id = gmap_frame_id s, pm_stamp = now e, pm_poses = []\<rparr>] \<and>
     new_calls s1 s2 = [RosInfo ''Deactivating path planner.'', AcCancelAllGoals,
        PathPublish \<lparr>pm_frame_id = gmap_frame_id s, pm_stamp = now e', pm_poses = []\<rparr>] \<and>
     \<not> active s1 \<and> \<not> active s2 \<and> s2\<lparr>trace := trace s1\<rparr> = s1 \<and>
     exec_held (trace s1) = 0 \<and> exec_held (trace s2) = 0 \<and>
     effective_cancels (exec_held (trace s1)) (new_calls s1 s2) = 0 \<and>
     effective_cancels (exec_held (trace s)) (new_calls s s2) =
       (if 0 < exec_held (trace s) then 1 else 0) \<and>
     active (emit AcCancelAllGoals (emit (RosInfo ''Deactivating path planner.'') s)) = active s \<and>
     deactivate e s = publishEmptyLocalPath e
       ((emit AcCancelAllGoals (emit (RosInfo ''Deactivating path planner.'') s))\<lparr>active := False\<rparr>)"
  by (simp add: Let_def deactivate_eq new_calls_def exec_held_append exec_step_def is_cancel_def
        emit_def publishEmptyLocalPath_def)

theorem C7_deactivate_idempotent_witness:
  "effective_cancels (exec_held (trace node_active))
     (new_calls node_active (deactivate env_ok (deactivate env_ok node_active))) = 1 \<and>
   effective_cancels (exec_held (trace node0))
     (new_calls node0 (deactivate env_ok (deactivate env_ok node0))) = 0 \<and>
   \<not> active (deactivate env_ok (deactivate env_ok node_active))"
proof -
  have h1: "exec_held (trace node_active) = 1"
    by (rule node_active_facts(4))
  have h0: "exec_held (trace node0) = 0"
    by (simp add: node0_facts exec_held_def)
  have a: "effective_cancels (exec_held (trace node_active))
      (new_calls node_active (deactivate env_ok (deactivate env_ok node_active))) =
      (if 0 < exec_held (trace node_active) then 1 else 0)"
    using C7_deactivate_idempotent [of env_ok node_active env_ok] unfolding Let_def by blast
  have b: "\<not> active (deactivate env_ok (deactivate env_ok node_active))"
    using C7_deactivate_idempotent [of env_ok node_active env_ok] unfolding Let_def by blast
  have c: "effective_cancels (exec_held (trace node0))
      (new_calls node0 (deactivate env_ok (deactivate env_ok node0))) =
      (if 0 < exec_held (trace node0) then 1 else 0)"
    using C7_deactivate_idempotent [of env_ok node0 env_ok] unfolding Let_def by blast
  from a b c show ?thesis
    by (simp add: h1 h0)
qed

text \<open>
  C8, as stated, fails: one second after the stopwatch was started, a tick of the
  following node that reaches \<^verbatim>\<open>planner_.update\<close> passes the hint false, although
  more than 500 ms have elapsed.
\<close>

theorem C8_counterexample:
  "500 < msElapsed env_ok node_active \<and>
   replan_hints (new_calls node_active (update env_ok node_active)) \<noteq>
     [500 < msElapsed env_ok node_active]"
proof -
  have look: "tf_lookupTransform env_ok (gmap_frame_id node_active) ''/base_link'' =
      Inr \<lparr>tr_x = 0, tr_y = 0, tr_rotation = (0, 0, 0, 1)\<rparr>"
    by (rule env_ok_lookup)
  have c: "\<not> pl_isGoalReached env_ok p" "pl_update env_ok p False = None"
    "pl_hasValidPath env_ok" "\<not> pl_hasNewLocalPath env_ok" for p
    by (simp_all add: env_ok_def)
  have el: "msElapsed env_ok node_active = 1000"
    by (simp add: msElapsed_def node_active_facts) (simp add: env_ok_def)
  show ?thesis
    by (simp add: el update_no_new_path [OF node_active_facts(1) look refl c] new_calls_def
          replan_hints_def update_hint_def)
qed

text \<open>
  C8, as amended. The hint passed to \<^verbatim>\<open>planner_.update\<close> is the constant false:
  no tick passes any other hint, and a tick of an active node that finds the pose and has
  not reached the goal calls \<^verbatim>\<open>planner_.update\<close> once, with that pose and the hint
  false, whatever the stopwatch shows.
\<close>

theorem C8_replan_hint_always_false:
  "set (replan_hints (new_calls s (update e s))) \<subseteq> {False} \<and>
   (active s \<and> robot_pose e s = Some p \<and> \<not> pl_isGoalReached e p \<longrightarrow>
      replan_hints (new_calls s (update e s)) = [False] \<and>
      PlUpdate p False (pl_update e p False) \<in> set (new_calls s (update e s)))"
  using update_hints [of s e] update_replans [of s e p] by blast

theorem C8_replan_hint_always_false_witness:
  "active node_active \<and> robot_pose env_ok node_active = Some pose0 \<and>
   \<not> pl_isGoalReached env_ok pose0 \<and> 500 < msElapsed env_ok node_active \<and>
   replan_hints (new_calls node_active (update env_ok node_active)) = [False]"
proof -
  have pose: "robot_pose env_ok node_active = Some pose0"
    by (simp add: node_active_pose env_ok_lookup pose0_def) (simp add: env_ok_def)
  have nr: "\<not> pl_isGoalReached env_ok pose0"
    by (simp add: env_ok_def)
  have el: "500 < msElapsed env_ok node_active"
    by (simp add: msElapsed_def node_active_facts) (simp add: env_ok_def)
  from C8_replan_hint_always_false [of node_active env_ok pose0]
  show ?thesis using pose nr el node_active_facts(1) by blast
qed

text \<open>
  C9. Goal adoption does not look at \<^verbatim>\<open>got_map_\<close>: the constructor sets the flag
  to false and \<^verbatim>\<open>updateMap\<close> sets it to true, and neither \<^verbatim>\<open>updateGoal\<close> nor
  \<^verbatim>\<open>update\<close> depends on it or changes it. On the freshly constructed node, before any
  map, a goal request runs the whole sequence. It compares the frame of the goal with the
  empty frame and calls \<^verbatim>\<open>transformPose\<close> exactly when they differ; if that throws,
  the request ends there. Otherwise, for the goal as it is or as converted, it looks the
  pose up in the empty frame; if the pose is found it gives the default-constructed map
  and the goal to the planner; it waits for the action server exactly when the planner
  took the goal and has a valid path; and it ends active, with one \<^verbatim>\<open>sendGoal\<close>,
  exactly when the server was ready as well.
\<close>

theorem C9_goal_adoption_ignores_got_map:
  "updateGoal e g (s\<lparr>got_map := b\<rparr>) = (updateGoal e g s)\<lparr>got_map := b\<rparr> \<and>
   update e (s\<lparr>got_map := b\<rparr>) = (update e s)\<lparr>got_map := b\<rparr> \<and>
   got_map (updateMap m s) \<and>
   (let s0 = CombinedPlannerNode t0 p_map p_goal p_path;
        s' = updateGoal e g s0;
        cs = new_calls s0 s';
        grid0 = \<lparr>og_frame_id = [], og_width = 0, og_height = 0, og_data = []\<rparr>
    in \<not> got_map s0 \<and> gmap_frame_id s0 = [] \<and> gmap_cpy s0 = grid0 \<and> \<not> got_map s' \<and>
       (list_ex is_transformPose cs \<longleftrightarrow> ps_frame_id g \<noteq> []) \<and>
       (case (if ps_frame_id g \<noteq> [] then tf_transformPose e [] g else Inr g) of
          Inl what \<Rightarrow>
            \<not> active s' \<and>
            cs = [RosInfo ''Got a new goal'', RosInfo ''Deactivating path planner.'',
                  AcCancelAllGoals,
                  PathPublish \<lparr>pm_frame_id = [], pm_stamp = now e, pm_poses = []\<rparr>,
                  TfTransformPose [] g None,
                  RosError (''Cannot transform goal into map coordinates. Reason: '' @ what)]
        | Inr goal_map \<Rightarrow>
            (ps_frame_id g \<noteq> [] \<longrightarrow> TfTransformPose [] g (Some goal_map) \<in> set cs) \<and>
            (case tf_lookupTransform e [] ''/base_link'' of
               Inl what \<Rightarrow>
                 TfLookupTransform [] ''/base_link'' None \<in> set cs \<and>
                 \<not> list_ex is_planner_call cs \<and> \<not> active s' \<and>
                 length (filter is_send cs) = 0
             | Inr trafo \<Rightarrow>
                 let pathStart = \<lparr>px = tr_x trafo, py = tr_y trafo,
                       ptheta = tf_getYaw e (tr_rotation trafo)\<rparr>;
                     pathEnd = \<lparr>px = ps_x goal_map, py = ps_y goal_map,
                       ptheta = tf_getYaw e (ps_orientation goal_map)\<rparr>;
                     planned = (pl_setGoal e pathStart pathEnd = None \<and> pl_hasValidPath e)
                 in TfLookupTransform [] ''/base_link'' (Some trafo) \<in> set cs \<and>
                    PlSetGlobalMap grid0 \<in> set cs \<and>
                    PlSetGoal pathStart pathEnd (pl_setGoal e pathStart pathEnd) \<in> set cs \<and>
                    (AcWaitForServer 1.0 (ac_waitForServer e 1.0) \<in> set cs \<longleftrightarrow> planned) \<and>
                    (active s' \<longleftrightarrow> planned \<and> ac_waitForServer e 1.0) \<and>
                    length (filter is_send cs) =
                      (if planned \<and> ac_waitForServer e 1.0 then 1 else 0))))"
proof -
  define s0 where "s0 = CombinedPlannerNode t0 p_map p_goal p_path"
  have init: "\<not> got_map s0" "gmap_frame_id s0 = []" "trace s0 = []"
    "gmap_cpy s0 = \<lparr>og_frame_id = [], og_width = 0, og_height = 0, og_data = []\<rparr>"
    by (simp_all add: s0_def CombinedPlannerNode_def)
  have keeps: "\<not> got_map (updateGoal e g s0)"
    using updateGoal_transforms [of e g s0] init(1) by simp
  have compares: "list_ex is_transformPose (new_calls s0 (updateGoal e g s0)) \<longleftrightarrow>
      ps_frame_id g \<noteq> []"
    using updateGoal_transforms [of e g s0] init(2) by simp
  have steps: "case (if ps_frame_id g \<noteq> [] then tf_transformPose e [] g else Inr g) of
          Inl what \<Rightarrow>
            \<not> active (updateGoal e g s0) \<and>
            new_calls s0 (updateGoal e g s0) =
                 [RosInfo ''Got a new goal'', RosInfo ''Deactivating path planner.'',
                  AcCancelAllGoals,
                  PathPublish \<lparr>pm_frame_id = [], pm_stamp = now e, pm_poses = []\<rparr>,
                  TfTransformPose [] g None,
                  RosError (''Cannot transform goal into map coordinates. Reason: '' @ what)]
        | Inr goal_map \<Rightarrow>
            (ps_frame_id g \<noteq> [] \<longrightarrow>
               TfTransformPose [] g (Some goal_map) \<in> set (new_calls s0 (updateGoal e g s0))) \<and>
            (case tf_lookupTransform e [] ''/base_link'' of
               Inl what \<Rightarrow>
                 TfLookupTransform [] ''/base_link'' None \<in> set (new_calls s0 (updateGoal e g s0)) \<and>
                 \<not> list_ex is_planner_call (new_calls s0 (updateGoal e g s0)) \<and>
                 \<not> active (updateGoal e g s0) \<and>
                 length (filter is_send (new_calls s0 (updateGoal e g s0))) = 0
             | Inr trafo \<Rightarrow>
                 let pathStart = \<lparr>px = tr_x trafo, py = tr_y trafo,
                       ptheta = tf_getYaw e (tr_rotation trafo)\<rparr>;
                     pathEnd = \<lparr>px = ps_x goal_map, py = ps_y goal_map,
                       ptheta = tf_getYaw e (ps_orientation goal_map)\<rparr>;
                     planned = (pl_setGoal e pathStart pathEnd = None \<and> pl_hasValidPath e)
                 in TfLookupTransform [] ''/base_link'' (Some trafo)
                      \<in> set (new_calls s0 (updateGoal e g s0)) \<and>
                    PlSetGlobalMap \<lparr>og_frame_id = [], og_width = 0, og_height = 0, og_data = []\<rparr>
                      \<in> set (new_calls s0 (updateGoal e g s0)) \<and>
                    PlSetGoal pathStart pathEnd (pl_setGoal e pathStart pathEnd)
                      \<in> set (new_calls s0 (updateGoal e g s0)) \<and>
                    (AcWaitForServer 1.0 (ac_waitForServer e 1.0)
                       \<in> set (new_calls s0 (updateGoal e g s0)) \<longleftrightarrow> planned) \<and>
                    (active (updateGoal e g s0) \<longleftrightarrow> planned \<and> ac_waitForServer e 1.0) \<and>
                    length (filter is_send (new_calls s0 (updateGoal e g s0))) =
                      (if planned \<and> ac_waitForServer e 1.0 then 1 else 0))"
  proof (cases rule: updateGoal_outcomes [where e = e and s = s0 and goal = g])
    case (dropped what)
    from dropped(1,2) show ?thesis
      by (simp add: init dropped(3) new_calls_def)
  next
    case (converted goal_map)
    let ?s1 = "s0\<lparr>active := False, trace := trace s0 @
         [RosInfo ''Got a new goal'', RosInfo ''Deactivating path planner.'', AcCancelAllGoals,
          PathPublish \<lparr>pm_frame_id = gmap_frame_id s0, pm_stamp = now e, pm_poses = []\<rparr>,
          TfTransformPose (gmap_frame_id s0) g (Some goal_map)]\<rparr>"
    have idle1: "\<not> active ?s1" by simp
    show ?thesis
    proof (cases "tf_lookupTransform e [] ''/base_link''")
      case (Inl what)
      with plan_sequence [OF idle1, of e goal_map] converted(1,2) show ?thesis
        by (auto simp add: init converted(3) new_calls_def is_planner_call_def is_send_def)
    next
      case (Inr trafo)
      with plan_sequence [OF idle1, of e goal_map] converted(1,2) show ?thesis
        by (auto simp add: init converted(3) new_calls_def Let_def is_send_def)
    qed
  next
    case same_frame
    let ?s1 = "s0\<lparr>active := False, trace := trace s0 @
         [RosInfo ''Got a new goal'', RosInfo ''Deactivating path planner.'', AcCancelAllGoals,
          PathPublish \<lparr>pm_frame_id = gmap_frame_id s0, pm_stamp = now e, pm_poses = []\<rparr>]\<rparr>"
    have idle1: "\<not> active ?s1" by simp
    show ?thesis
    proof (cases "tf_lookupTransform e [] ''/base_link''")
      case (Inl what)
      with plan_sequence [OF idle1, of e g] same_frame(1) show ?thesis
        by (auto simp add: init same_frame(2) new_calls_def is_planner_call_def is_send_def)
    next
      case (Inr trafo)
      with plan_sequence [OF idle1, of e g] same_frame(1) show ?thesis
        by (auto simp add: init same_frame(2) new_calls_def Let_def is_send_def)
    qed
  qed
  have writes: "got_map (updateMap m s)"
    by (simp add: updateMap_def)
  from init(1,2,4) keeps compares steps writes show ?thesis
    unfolding Let_def s0_def [symmetric]
    by (simp only: updateGoal_got_map update_got_map simp_thms)
qed


theorem C9_goal_adoption_ignores_got_map_witness:
  "ps_frame_id goal0 \<noteq> [] \<and> active (updateGoal env_ok goal0 node0) \<and>
   \<not> got_map (updateGoal env_ok goal0 node0) \<and>
   TfTransformPose [] goal0 (Some (goal0\<lparr>ps_frame_id := []\<rparr>))
     \<in> set (new_calls node0 (updateGoal env_ok goal0 node0)) \<and>
   PlSetGlobalMap \<lparr>og_frame_id = [], og_width = 0, og_height = 0, og_data = []\<rparr>
     \<in> set (new_calls node0 (updateGoal env_ok goal0 node0)) \<and>
   length (filter is_send (new_calls node0 (updateGoal env_ok goal0 node0))) = 1 \<and>
   ps_frame_id goal_noframe = [] \<and> active (updateGoal env_ok goal_noframe node0) \<and>
   length (filter is_send (new_calls node0 (updateGoal env_ok goal_noframe node0))) = 1 \<and>
   got_map (updateMap map0 node0)"
proof -
  have fr: "ps_frame_id goal_noframe = []" "ps_frame_id goal0 \<noteq> []"
    by (simp_all add: goal_noframe_def goal0_def)
  have conv: "tf_transformPose env_ok [] goal0 = Inr (goal0\<lparr>ps_frame_id := []\<rparr>)"
    by (simp add: env_ok_def)
  have ok: "pl_setGoal env_ok a c = None" "pl_hasValidPath env_ok" "ac_waitForServer env_ok 1"
    for a c
    by (simp_all add: env_ok_def)
  note T = C9_goal_adoption_ignores_got_map [where s = node0 and b = True and m = map0
      and ?t0.0 = 0 and p_map = None and p_goal = None and p_path = None and e = env_ok,
      unfolded Let_def, folded node0_def]
  have w: "got_map (updateMap map0 node0)"
    using T [of goal0] by blast
  have k: "\<not> got_map (updateGoal env_ok goal0 node0)"
    using T [of goal0] by blast
  have a: "active (updateGoal env_ok goal0 node0) \<and>
      TfTransformPose [] goal0 (Some (goal0\<lparr>ps_frame_id := []\<rparr>))
        \<in> set (new_calls node0 (updateGoal env_ok goal0 node0)) \<and>
      PlSetGlobalMap \<lparr>og_frame_id = [], og_width = 0, og_height = 0, og_data = []\<rparr>
        \<in> set (new_calls node0 (updateGoal env_ok goal0 node0)) \<and>
      length (filter is_send (new_calls node0 (updateGoal env_ok goal0 node0))) = 1"
    using T [of goal0, THEN conjunct2, THEN conjunct2, THEN conjunct2]
    by (simp add: fr conv ok env_ok_lookup)
  have c: "active (updateGoal env_ok goal_noframe node0) \<and>
      length (filter is_send (new_calls node0 (updateGoal env_ok goal_noframe node0))) = 1"
    using T [of goal_noframe, THEN conjunct2, THEN conjunct2, THEN conjunct2]
    by (simp add: fr ok env_ok_lookup)
  from fr w k a c show ?thesis
    by blast
qed

text \<open>
  C10. After every map update the stored frame identifier is \<open>''/map''\<close>, whatever frame
  the map message carries. In every state reached from the constructed node the identifier
  is the empty string if no map has arrived and \<open>''/map''\<close> otherwise, and every path and
  marker published so far is stamped with one of the two. Every path and marker that a
  callback publishes is stamped with the identifier stored when the callback runs, and
  only a map update changes the stored identifier.
\<close>

theorem C10_frame_id_constant:
  "gmap_frame_id (updateMap m s) = ''/map'' \<and>
   (let r = run evs (CombinedPlannerNode t0 p_map p_goal p_path) in
      gmap_frame_id r = (if list_ex is_map_update evs then ''/map'' else []) \<and>
      (\<forall>f \<in> set (stamped_frames (trace r)). f = [] \<or> f = ''/map'')) \<and>
   (\<forall>f \<in> set (stamped_frames (new_calls s (step ev s))). f = gmap_frame_id s) \<and>
   (\<not> is_map_update ev \<longrightarrow> gmap_frame_id (step ev s) = gmap_frame_id s)"
proof -
  define s0 where "s0 = CombinedPlannerNode t0 p_map p_goal p_path"
  have init: "gmap_frame_id s0 = []" "trace s0 = []"
    by (simp_all add: s0_def CombinedPlannerNode_def)
  have nc: "new_calls s0 (run evs s0) = trace (run evs s0)"
    by (simp add: new_calls_def init)
  from run_frames [of evs s0] step_frames [of ev s] show ?thesis
    unfolding Let_def s0_def [symmetric] nc init
    by (simp add: updateMap_def)
qed

theorem C10_frame_id_constant_witness:
  "gmap_frame_id node_active = ''/map'' \<and>
   stamped_frames (new_calls node_active (step (Tick env_reached) node_active)) =
     [gmap_frame_id node_active] \<and>
   list_ex is_map_update [MapUpdate map0, GoalRequest env_ok goal0]"
proof -
  have look: "tf_lookupTransform env_reached (gmap_frame_id node_active) ''/base_link'' =
      Inr \<lparr>tr_x = 0, tr_y = 0, tr_rotation = (0, 0, 0, 1)\<rparr>"
    by (simp add: env_reached_def env_ok_def)
  have r: "pl_isGoalReached env_reached p" for p
    by (simp add: env_reached_def)
  have st: "stamped_frames (new_calls node_active (step (Tick env_reached) node_active)) =
      [''/map'']"
    by (simp add: update_goal_reached [OF node_active_facts(1) look refl r] new_calls_def
          stamped_frames_def stamped_frame_def node_active_facts(2))
  have ev: "list_ex is_map_update [MapUpdate map0, GoalRequest env_ok goal0]"
    by (simp add: is_map_update_def)
  note T = C10_frame_id_constant [where evs = "[MapUpdate map0, GoalRequest env_ok goal0]"
      and ?t0.0 = 0 and p_map = None and p_goal = None and p_path = None
      and s = node_active and ev = "Tick env_reached" and m = map0,
      unfolded Let_def, folded node0_def, folded node_active_def]
  from T have a: "gmap_frame_id node_active =
      (if list_ex is_map_update [MapUpdate map0, GoalRequest env_ok goal0] then ''/map'' else [])"
    and b: "\<forall>f \<in> set (stamped_frames (trace node_active)). f = [] \<or> f = ''/map''"
    and c: "\<forall>f \<in> set (stamped_frames (new_calls node_active (step (Tick env_reached) node_active))).
      f = gmap_frame_id node_active"
    by blast+
  from a ev have a': "gmap_frame_id node_active = ''/map''"
    by (simp only: if_True)
  from a' st ev show ?thesis
    by simp
qed

end
